theory Spec2Isabelle
  imports Complex_Main
begin

section \<open>JavaScript strings and numbers\<close>

text \<open>
  Strings are modelled as \<^typ>\<open>string\<close>; \<open>toLowerCase\<close> maps the letters A to Z to
  a to z and leaves every other character alone (addresses, chain names, keywords and
  Solidity sources are ASCII).  \<open>null\<close> and \<open>undefined\<close> are \<open>None\<close>.
  JavaScript numbers are modelled exactly, without floating-point rounding: analyzer
  scores are integers (\<^typ>\<open>int\<close>), the weighted score and the confidence
  are rationals (\<^typ>\<open>rat\<close>), and a decimal constant such as 0.4 is the
  fraction it denotes.
\<close>

definition toLowerChar :: "char \<Rightarrow> char" where
  "toLowerChar c =
     (if 65 \<le> (of_char c :: nat) \<and> (of_char c :: nat) \<le> 90
      then char_of ((of_char c :: nat) + 32) else c)"

definition toLowerCase :: "string \<Rightarrow> string" where
  "toLowerCase s = map toLowerChar s"

definition startsWith :: "string \<Rightarrow> string \<Rightarrow> bool" where
  "startsWith s k = (take (length k) s = k)"

text \<open>\<open>text.includes(keyword)\<close>: the keyword occurs at some position of the text.\<close>

fun str_includes :: "string \<Rightarrow> string \<Rightarrow> bool" where
  "str_includes [] k = (k = [])"
| "str_includes (c # cs) k = (startsWith (c # cs) k \<or> str_includes cs k)"

text \<open>\<open>x || ''\<close> on an optional string.\<close>

fun orEmpty :: "string option \<Rightarrow> string" where
  "orEmpty None = []"
| "orEmpty (Some s) = s"

text \<open>\<open>Math.round\<close>: the nearest integer, halves rounded up.\<close>

definition Math_round :: "rat \<Rightarrow> int" where
  "Math_round x = \<lfloor>x + 1 / 2\<rfloor>"

section \<open>whitelist.js\<close>

definition KNOWN_SAFE_TOKENS :: "string list" where
  "KNOWN_SAFE_TOKENS =
    [''0xa0b86991c6218b36c1d19d4a2e9eb0ce3606eb48'',
     ''0xdac17f958d2ee523a2206206994597c13d831ec7'',
     ''0x6b175474e89094c44da98b954eedeac495271d0f'',
     ''0x4fabb145d64652a948d72533023f6e7a623c7c53'',
     ''0xc02aaa39b223fe8d0a0e5c4f27ead9083c756cc2'',
     ''0x2260fac5e5542a773aa44fbcfedf7c193bc2c599'',
     ''0x514910771af9ca656af840dff83e8264ecf986ca'',
     ''0x1f9840a85d5af5bf1d1762f925bdaddc4201f984'',
     ''0x7d1afa7b718fb893db30a3abc0cfc608aacfebb0'',
     ''0x7fc66500c84a76ad7e9c93437bfc5ac33e2ddae9'',
     ''0x6b3595068778dd592e39a122f4f5a5cf09c90fe2'',
     ''0xc00e94cb662c3520282e6f5717214004a7f26888'',
     ''0x9f8f72aa9304c8b593d555f12ef6589cc3a579a2'',
     ''0xb8c77482e45f1f44de1745f52c74426c631bdd52'',
     ''0x50d1c9771902476076ecfc8b2a83ad6b9355a4c9'',
     ''0xa0b73e1ff0b80914ab6fe0444e65848c4c34450b'',
     ''0x75231f58b43240c9718dd58b4967c5114342a86c'',
     ''0x6f259637dcd74c767781e37bc6133cd6a68aa161'',
     ''0x4a220e6096b25eadb88358cb44068a3248254675'']"

definition isKnownSafeToken :: "string \<Rightarrow> bool" where
  "isKnownSafeToken address =
     (let normalized = toLowerCase address in normalized \<in> set KNOWN_SAFE_TOKENS)"

definition stablecoinKeywords :: "string list" where
  "stablecoinKeywords =
     [''usd'', ''usdc'', ''usdt'', ''dai'', ''busd'', ''tusd'', ''gusd'', ''pax'']"

definition isStablecoin :: "string option \<Rightarrow> string option \<Rightarrow> bool" where
  "isStablecoin symbol name =
     (if orEmpty symbol = [] \<and> orEmpty name = [] then False
      else let text = toLowerCase (orEmpty symbol @ '' '' @ orEmpty name)
           in list_ex (\<lambda>keyword. str_includes text keyword) stablecoinKeywords)"

section \<open>scoring.js: the data the aggregator reads\<close>

record contractInfo =
  ci_address :: "string option"
  ci_name :: "string option"
  ci_symbol :: "string option"
  ci_verified :: bool
  ci_ageInDays :: int
  ci_transactionCount :: int
  ci_creator :: "string option"
  ci_creationTxHash :: "string option"

text \<open>A finding of the code analyzer and the analyzer's result.\<close>

record vulnerability =
  v_type :: string
  v_severity :: string
  v_description :: string
  v_evidence :: string
  v_score :: int

record safePattern =
  sp_type :: string
  sp_description :: string
  sp_evidence :: string
  sp_score :: int

record codeAnalysis =
  ca_analyzed :: bool
  ca_vulnerabilities :: "vulnerability list"
  ca_safePatterns :: "safePattern list"
  ca_score :: int

record ownershipAnalysis =
  oa_hasOwner :: "bool option"
  oa_score :: int

text \<open>
  The result objects of the liquidity analyzer, the behavioural analyzer and the
  oracle adapters, reduced to the fields that scoring.js reads.
\<close>

record liquidityScore =
  ls_hasLiquidity :: "bool option"
  ls_score :: int

record riskResult =
  rr_score :: int

record creatorHistory =
  ch_analyzed :: bool
  ch_score :: int

record tokenSnifferResult =
  ts_checked :: bool

record goplusResult =
  gp_checked :: bool
  gp_is_honeypot :: "bool option"
  gp_hidden_owner :: "bool option"
  gp_cannot_sell_all :: "bool option"
  gp_buy_tax :: "rat option"
  gp_sell_tax :: "rat option"

record analyses =
  an_codeAnalysis :: "codeAnalysis option"
  an_ownershipAnalysis :: "ownershipAnalysis option"
  an_liquidityAnalysis :: "liquidityScore option"
  an_behaviorAnalysis :: "riskResult option"
  an_contractInfo :: "contractInfo option"
  an_tokenSnifferRisk :: "riskResult option"
  an_tokenSnifferResult :: "tokenSnifferResult option"
  an_goplusRisk :: "riskResult option"
  an_goplusResult :: "goplusResult option"
  an_creatorHistoryAnalysis :: "creatorHistory option"
  an_holderAnalysis :: "riskResult option"
  an_creatorHoldingAnalysis :: "riskResult option"

text \<open>A derived finding: \<open>{type, description, score}\<close> without the description text.\<close>

record derivedFinding =
  df_type :: string
  df_score :: int

section \<open>scoring.js: detectScamKeywords\<close>

definition scamKeywords :: "string list" where
  "scamKeywords =
     [''scam'', ''beware'', ''fake'', ''phishing'', ''warning'', ''honeypot'',
      ''fraud'', ''ponzi'', ''rugpull'', ''rug pull'', ''exit scam'', ''dont buy'',
      [CHR ''d'', CHR ''o'', CHR ''n'', CHR 0x27, CHR ''t'', CHR '' '', CHR ''b'', CHR ''u'', CHR ''y''],
      ''stay away'', ''avoid'', ''stolen'', ''hacked'']"

text \<open>
  The result is the keyword of the first match (\<open>{isScam: true, keyword}\<close>) or
  \<open>None\<close> (\<open>{isScam: false}\<close>).
\<close>

definition detectScamKeywords :: "string option \<Rightarrow> string option \<Rightarrow> string option" where
  "detectScamKeywords name symbol =
     (let text = toLowerCase (orEmpty name @ '' '' @ orEmpty symbol)
      in find (\<lambda>keyword. str_includes text keyword) scamKeywords)"

definition isScam :: "string option \<Rightarrow> bool" where
  "isScam scamDetection = (scamDetection \<noteq> None)"

section \<open>scoring.js: detectSuspiciousPatterns and detectAPINotFound\<close>

text \<open>Optional chaining on the optional \<open>contractInfo\<close>.\<close>

definition ci_name_opt :: "contractInfo option \<Rightarrow> string option" where
  "ci_name_opt c = (case c of None \<Rightarrow> None | Some i \<Rightarrow> ci_name i)"

definition ci_symbol_opt :: "contractInfo option \<Rightarrow> string option" where
  "ci_symbol_opt c = (case c of None \<Rightarrow> None | Some i \<Rightarrow> ci_symbol i)"

definition ci_verified_opt :: "contractInfo option \<Rightarrow> bool" where
  "ci_verified_opt c = (case c of None \<Rightarrow> False | Some i \<Rightarrow> ci_verified i)"

text \<open>\<open>contractInfo?.address && isKnownSafeToken(contractInfo.address)\<close>.\<close>

definition onSafeList :: "contractInfo option \<Rightarrow> bool" where
  "onSafeList c =
     (case c of None \<Rightarrow> False
      | Some i \<Rightarrow> (case ci_address i of None \<Rightarrow> False
                  | Some a \<Rightarrow> a \<noteq> [] \<and> isKnownSafeToken a))"

definition detectSuspiciousPatterns :: "contractInfo option \<Rightarrow> derivedFinding list" where
  "detectSuspiciousPatterns c =
     (if onSafeList c then []
      else case c of None \<Rightarrow> []
      | Some i \<Rightarrow>
          (let suspiciousPatterns = [];
               suspiciousPatterns =
                 (if ci_ageInDays i > 365 \<and> ci_transactionCount i < 5000
                  then (let avgTxPerDay = (of_int (ci_transactionCount i) :: rat) / of_int (ci_ageInDays i)
                        in if avgTxPerDay < 1 \<and> (\<not> ci_verified i \<or> ci_ageInDays i < 730)
                           then suspiciousPatterns @
                                  [\<lparr>df_type = ''abandoned_or_suspicious'', df_score = 15\<rparr>]
                           else suspiciousPatterns)
                  else suspiciousPatterns);
               suspiciousPatterns =
                 (if \<not> ci_verified i \<and> ci_ageInDays i > 30
                  then suspiciousPatterns @
                         [\<lparr>df_type = ''unverified_old_contract'', df_score = 20\<rparr>]
                  else suspiciousPatterns)
           in suspiciousPatterns))"

definition detectAPINotFound ::
  "tokenSnifferResult option \<Rightarrow> goplusResult option \<Rightarrow> contractInfo option \<Rightarrow> derivedFinding list" where
  "detectAPINotFound tokenSnifferResult goplusResult c =
     (let findings = [];
          hasNoCreationData =
            (case c of None \<Rightarrow> True
             | Some i \<Rightarrow> orEmpty (ci_creator i) = [] \<and> orEmpty (ci_creationTxHash i) = []);
          hasNoActivity = (case c of None \<Rightarrow> False | Some i \<Rightarrow> ci_transactionCount i = 0)
      in if hasNoCreationData \<or> hasNoActivity
         then findings @ [\<lparr>df_type = ''contract_not_found'', df_score = 40\<rparr>]
         else
           (let isOld = (case c of None \<Rightarrow> False | Some i \<Rightarrow> ci_ageInDays i > 30);
                findings =
                  (case goplusResult of None \<Rightarrow> findings
                   | Some g \<Rightarrow>
                       if \<not> gp_checked g \<and> isOld
                       then findings @ [\<lparr>df_type = ''not_in_security_databases'', df_score = 10\<rparr>]
                       else findings);
                findings =
                  (case goplusResult of None \<Rightarrow> findings
                   | Some g \<Rightarrow>
                       if gp_checked g \<and> isOld
                       then (let hasNoData = (gp_is_honeypot g = None \<and> gp_buy_tax g = None
                                               \<and> gp_sell_tax g = None)
                             in if hasNoData
                                then findings @ [\<lparr>df_type = ''no_trading_data'', df_score = 10\<rparr>]
                                else findings)
                       else findings)
            in findings))"

section \<open>scoring.js: calculateRiskScore\<close>

text \<open>\<open>if (r && r.score) external += r.score\<close> for an oracle result \<open>r\<close>.\<close>

definition addScore :: "int \<Rightarrow> riskResult option \<Rightarrow> int" where
  "addScore acc r =
     (case r of None \<Rightarrow> acc | Some x \<Rightarrow> if rr_score x \<noteq> 0 then acc + rr_score x else acc)"

text \<open>
  Lines 171 to 243: the two accumulators \<open>internalAdjustments\<close> and
  \<open>externalAdjustments\<close>, updated in the order of the source.
\<close>

definition scoreAdjustments :: "analyses \<Rightarrow> int \<times> int" where
  "scoreAdjustments a =
     (let internalAdjustments = 0;
          externalAdjustments = 0;
          internalAdjustments =
            (case an_codeAnalysis a of
               Some ca \<Rightarrow>
                 if ca_analyzed ca then internalAdjustments + ca_score ca
                 else if \<not> ci_verified_opt (an_contractInfo a) then internalAdjustments + 15
                 else internalAdjustments
             | None \<Rightarrow>
                 if \<not> ci_verified_opt (an_contractInfo a) then internalAdjustments + 15
                 else internalAdjustments);
          internalAdjustments =
            (case an_ownershipAnalysis a of None \<Rightarrow> internalAdjustments
             | Some oa \<Rightarrow> internalAdjustments + oa_score oa);
          internalAdjustments =
            (case an_liquidityAnalysis a of None \<Rightarrow> internalAdjustments
             | Some la \<Rightarrow> internalAdjustments + ls_score la);
          internalAdjustments =
            (case an_behaviorAnalysis a of None \<Rightarrow> internalAdjustments
             | Some ba \<Rightarrow> internalAdjustments + rr_score ba);
          externalAdjustments = addScore externalAdjustments (an_tokenSnifferRisk a);
          externalAdjustments = addScore externalAdjustments (an_goplusRisk a);
          externalAdjustments =
            (case an_creatorHistoryAnalysis a of None \<Rightarrow> externalAdjustments
             | Some ch \<Rightarrow> if ch_score ch \<noteq> 0 then externalAdjustments + ch_score ch
                         else externalAdjustments);
          externalAdjustments = addScore externalAdjustments (an_holderAnalysis a);
          externalAdjustments = addScore externalAdjustments (an_creatorHoldingAnalysis a);
          suspiciousPatterns = detectSuspiciousPatterns (an_contractInfo a);
          internalAdjustments =
            fold (\<lambda>pattern acc. acc + df_score pattern) suspiciousPatterns internalAdjustments;
          apiNotFoundFindings =
            detectAPINotFound (an_tokenSnifferResult a) (an_goplusResult a) (an_contractInfo a);
          externalAdjustments =
            fold (\<lambda>finding acc. acc + df_score finding) apiNotFoundFindings externalAdjustments
      in (internalAdjustments, externalAdjustments))"

text \<open>Lines 245 to 251: the weighted sum, clamped to the range 0 to 100.\<close>

definition weightedScore :: "analyses \<Rightarrow> rat" where
  "weightedScore a =
     (let baseScore = 50;
          (internalAdjustments, externalAdjustments) = scoreAdjustments a;
          weightedAdjustments =
            (of_int internalAdjustments * (4 / 10)) + (of_int externalAdjustments * (6 / 10))
      in max 0 (min 100 (baseScore + weightedAdjustments)))"

text \<open>Lines 253 to 263: the known-safe and the stablecoin override.\<close>

definition applyOverrides :: "contractInfo option \<Rightarrow> rat \<Rightarrow> rat" where
  "applyOverrides c finalScore =
     (if onSafeList c then min finalScore 15
      else if ci_verified_opt c \<and> isStablecoin (ci_symbol_opt c) (ci_name_opt c)
      then min finalScore 20
      else finalScore)"

definition calculateRiskScore :: "analyses \<Rightarrow> int" where
  "calculateRiskScore a =
     (let scamDetection =
            detectScamKeywords (ci_name_opt (an_contractInfo a)) (ci_symbol_opt (an_contractInfo a))
      in if isScam scamDetection then 95
         else (let finalScore = weightedScore a;
                   finalScore = applyOverrides (an_contractInfo a) finalScore
               in Math_round finalScore))"

definition getRiskLevel :: "int \<Rightarrow> string" where
  "getRiskLevel score =
     (if score \<ge> 80 then ''critical''
      else if score \<ge> 60 then ''high''
      else if score \<ge> 40 then ''medium''
      else ''low'')"

section \<open>scoring.js: calculateConfidence\<close>

definition calculateConfidence :: "analyses \<Rightarrow> rat" where
  "calculateConfidence a =
     (let confidence = 5 / 10;
          confidence =
            (if ci_verified_opt (an_contractInfo a)
                \<and> (case an_codeAnalysis a of None \<Rightarrow> False | Some ca \<Rightarrow> ca_analyzed ca)
             then confidence + 15 / 100 else confidence);
          confidence =
            (if (case an_ownershipAnalysis a of None \<Rightarrow> False | Some oa \<Rightarrow> oa_hasOwner oa \<noteq> None)
             then confidence + 5 / 100 else confidence);
          confidence =
            (if (case an_liquidityAnalysis a of None \<Rightarrow> False | Some la \<Rightarrow> ls_hasLiquidity la \<noteq> None)
             then confidence + 5 / 100 else confidence);
          confidence =
            (if (case an_contractInfo a of None \<Rightarrow> False
                 | Some i \<Rightarrow> ci_ageInDays i \<noteq> 0 \<and> ci_ageInDays i > 7)
             then confidence + 5 / 100 else confidence);
          confidence =
            (if (case an_tokenSnifferResult a of None \<Rightarrow> False | Some t \<Rightarrow> ts_checked t)
             then confidence + 1 / 10 else confidence);
          confidence =
            (if (case an_goplusResult a of None \<Rightarrow> False | Some g \<Rightarrow> gp_checked g)
             then confidence + 15 / 100 else confidence);
          confidence =
            (if (case an_creatorHistoryAnalysis a of None \<Rightarrow> False | Some ch \<Rightarrow> ch_analyzed ch)
             then confidence + 1 / 10 else confidence)
      in min 1 confidence)"

section \<open>fallback-analyzer.js: calculateRPCOnlyRiskScore\<close>

record bytecodeFinding =
  bf_pattern :: string
  bf_severity :: string

text \<open>
  An entry of the fallback result's \<open>vulnerabilities\<close>: type, severity and source (the
  description and evidence texts are left out).
\<close>

record fallbackVulnerability =
  fv_type :: string
  fv_severity :: string
  fv_source :: string

record fallbackResult =
  fr_score :: int
  fr_vulnerabilities :: "fallbackVulnerability list"

text \<open>The body of the \<open>forEach\<close> over the bytecode findings.\<close>

definition bytecodeVulnerability :: "bytecodeFinding \<Rightarrow> fallbackVulnerability list" where
  "bytecodeVulnerability finding =
     (if bf_pattern finding = ''potential_selfdestruct''
      then [\<lparr>fv_type = ''potential_selfdestruct'', fv_severity = ''low'',
             fv_source = ''Bytecode Analysis''\<rparr>]
      else if bf_pattern finding = ''delegatecall''
      then [\<lparr>fv_type = ''proxy_pattern'', fv_severity = ''info'',
             fv_source = ''Bytecode Analysis''\<rparr>]
      else if bf_pattern finding = ''erc20_standard''
      then [\<lparr>fv_type = ''erc20_standard'', fv_severity = ''info'',
             fv_source = ''Bytecode Analysis''\<rparr>]
      else [])"

text \<open>Truthiness of an optional boolean field, and \<open>x > n\<close> on an optional number.\<close>

definition truthy :: "bool option \<Rightarrow> bool" where
  "truthy b = (b = Some True)"

definition greaterThan :: "rat option \<Rightarrow> rat \<Rightarrow> bool" where
  "greaterThan x n = (case x of None \<Rightarrow> False | Some v \<Rightarrow> v > n)"

definition calculateRPCOnlyRiskScore ::
  "contractInfo \<Rightarrow> goplusResult option \<Rightarrow> bytecodeFinding list \<Rightarrow> fallbackResult" where
  "calculateRPCOnlyRiskScore c goplusData bytecodeFindings =
     (let score = 0;
          vulnerabilities = [];
          score = score + 10;
          vulnerabilities = vulnerabilities @
            [\<lparr>fv_type = ''unverified_source'', fv_severity = ''medium'',
              fv_source = ''Fallback Analyzer''\<rparr>];
          vulnerabilities =
            fold (\<lambda>finding acc. acc @ bytecodeVulnerability finding) bytecodeFindings vulnerabilities;
          (score, vulnerabilities) =
            (case goplusData of None \<Rightarrow> (score, vulnerabilities)
             | Some g \<Rightarrow>
                 (let (score, vulnerabilities) =
                        (if truthy (gp_is_honeypot g)
                         then (score + 40, vulnerabilities @
                                 [\<lparr>fv_type = ''honeypot'', fv_severity = ''critical'',
                                   fv_source = ''GoPlus Security''\<rparr>])
                         else (score, vulnerabilities));
                      (score, vulnerabilities) =
                        (if truthy (gp_hidden_owner g)
                         then (score + 15, vulnerabilities @
                                 [\<lparr>fv_type = ''hidden_owner'', fv_severity = ''high'',
                                   fv_source = ''GoPlus Security''\<rparr>])
                         else (score, vulnerabilities));
                      (score, vulnerabilities) =
                        (if greaterThan (gp_buy_tax g) 10 \<or> greaterThan (gp_sell_tax g) 10
                         then (score + 15, vulnerabilities @
                                 [\<lparr>fv_type = ''high_tax'', fv_severity = ''medium'',
                                   fv_source = ''GoPlus Security''\<rparr>])
                         else (score, vulnerabilities));
                      (score, vulnerabilities) =
                        (if truthy (gp_cannot_sell_all g)
                         then (score + 25, vulnerabilities @
                                 [\<lparr>fv_type = ''cannot_sell'', fv_severity = ''critical'',
                                   fv_source = ''GoPlus Security''\<rparr>])
                         else (score, vulnerabilities))
                  in (score, vulnerabilities)))
      in \<lparr>fr_score = min score 100, fr_vulnerabilities = vulnerabilities\<rparr>)"

section \<open>agent.js: the scoring step of analyzeContract\<close>

text \<open>
  What \<open>analyzeContract\<close> has collected when it reaches step 7 (lines 249 to 285): the
  resolver's outcome, the token's name and symbol, and the result of every analyzer and
  oracle (the default object where one did not run).
\<close>

record collected =
  co_usingFallback :: bool
  co_contractInfo :: contractInfo
  co_tokenName :: "string option"
  co_tokenSymbol :: "string option"
  co_codeAnalysis :: codeAnalysis
  co_bytecodeFindings :: "bytecodeFinding list"
  co_ownershipAnalysis :: ownershipAnalysis
  co_liquidityAnalysis :: liquidityScore
  co_behaviorAnalysis :: riskResult
  co_tokenSnifferResult :: "tokenSnifferResult option"
  co_tokenSnifferRisk :: riskResult
  co_goplusResult :: "goplusResult option"
  co_goplusRisk :: riskResult
  co_creatorHistoryAnalysis :: creatorHistory
  co_holderAnalysis :: riskResult
  co_creatorHoldingAnalysis :: riskResult

text \<open>The object \<open>analyses\<close> of lines 260 to 278.\<close>

definition fullAnalyses :: "collected \<Rightarrow> analyses" where
  "fullAnalyses c =
     \<lparr>an_codeAnalysis = Some (co_codeAnalysis c),
      an_ownershipAnalysis = Some (co_ownershipAnalysis c),
      an_liquidityAnalysis = Some (co_liquidityAnalysis c),
      an_behaviorAnalysis = Some (co_behaviorAnalysis c),
      an_contractInfo =
        Some ((co_contractInfo c)\<lparr>ci_symbol := co_tokenSymbol c, ci_name := co_tokenName c\<rparr>),
      an_tokenSnifferRisk = Some (co_tokenSnifferRisk c),
      an_tokenSnifferResult = co_tokenSnifferResult c,
      an_goplusRisk = Some (co_goplusRisk c),
      an_goplusResult = co_goplusResult c,
      an_creatorHistoryAnalysis = Some (co_creatorHistoryAnalysis c),
      an_holderAnalysis = Some (co_holderAnalysis c),
      an_creatorHoldingAnalysis = Some (co_creatorHoldingAnalysis c)\<rparr>"

text \<open>The object \<open>{ codeAnalysis, ownershipAnalysis }\<close> of line 285.\<close>

definition confidenceArgument :: "collected \<Rightarrow> analyses" where
  "confidenceArgument c =
     \<lparr>an_codeAnalysis = Some (co_codeAnalysis c),
      an_ownershipAnalysis = Some (co_ownershipAnalysis c),
      an_liquidityAnalysis = None,
      an_behaviorAnalysis = None,
      an_contractInfo = None,
      an_tokenSnifferRisk = None,
      an_tokenSnifferResult = None,
      an_goplusRisk = None,
      an_goplusResult = None,
      an_creatorHistoryAnalysis = None,
      an_holderAnalysis = None,
      an_creatorHoldingAnalysis = None\<rparr>"

record riskRecord =
  rec_risk_score :: int
  rec_risk_level :: string
  rec_confidence :: rat

text \<open>
  Lines 249 to 285, with the confidence function taken as the parameter \<open>conf\<close>
  (it is \<open>calculateConfidence\<close> in the program).
\<close>

definition scoringStepWith :: "(analyses \<Rightarrow> rat) \<Rightarrow> collected \<Rightarrow> riskRecord" where
  "scoringStepWith conf c =
     (let riskScore =
            (if co_usingFallback c
             then fr_score (calculateRPCOnlyRiskScore (co_contractInfo c) (co_goplusResult c)
                              (co_bytecodeFindings c))
             else calculateRiskScore (fullAnalyses c));
          riskLevel = getRiskLevel riskScore;
          confidence = (if co_usingFallback c then 7 / 10 else conf (confidenceArgument c))
      in \<lparr>rec_risk_score = riskScore, rec_risk_level = riskLevel,
          rec_confidence = confidence\<rparr>)"

definition scoringStep :: "collected \<Rightarrow> riskRecord" where
  "scoringStep c = scoringStepWith calculateConfidence c"

section \<open>cache.js: CacheDB\<close>

text \<open>
  The table \<open>scan_results\<close> has at most one row for each
  \<open>(contract_address, chain, scan_depth)\<close> (a UNIQUE constraint), so it is a map
  from that key to the row's \<open>result\<close> and \<open>created_at\<close>.  \<open>Date.now()\<close> is the
  argument \<open>now\<close>, in milliseconds.  \<open>JSON.parse\<close> is the parameter \<open>parse\<close>:
  \<open>None\<close> where it throws.
\<close>

record cacheRow =
  row_result :: string
  row_created_at :: int

type_synonym cacheKey = "string \<times> string \<times> string"

type_synonym scan_results = "cacheKey \<Rightarrow> cacheRow option"

definition cacheKey :: "string \<Rightarrow> string \<Rightarrow> string \<Rightarrow> cacheKey" where
  "cacheKey contractAddress chain scanDepth =
     (toLowerCase contractAddress, toLowerCase chain, scanDepth)"

definition CacheDB_set ::
  "scan_results \<Rightarrow> int \<Rightarrow> string \<Rightarrow> string \<Rightarrow> string \<Rightarrow> string \<Rightarrow> scan_results" where
  "CacheDB_set db now contractAddress chain scanDepth resultJson =
     db(cacheKey contractAddress chain scanDepth :=
          Some \<lparr>row_result = resultJson, row_created_at = now\<rparr>)"

definition CacheDB_delete :: "scan_results \<Rightarrow> string \<Rightarrow> string \<Rightarrow> string \<Rightarrow> scan_results" where
  "CacheDB_delete db contractAddress chain scanDepth =
     db(cacheKey contractAddress chain scanDepth := None)"

text \<open>The result is the returned value (\<open>None\<close> for \<open>null\<close>) and the table after the call.\<close>

definition CacheDB_get ::
  "(string \<Rightarrow> 'j option) \<Rightarrow> scan_results \<Rightarrow> int \<Rightarrow> string \<Rightarrow> string \<Rightarrow> string
     \<Rightarrow> 'j option \<times> scan_results" where
  "CacheDB_get parse db now contractAddress chain scanDepth =
     (case db (cacheKey contractAddress chain scanDepth) of
        None \<Rightarrow> (None, db)
      | Some row \<Rightarrow>
          (let age = now - row_created_at row;
               maxAge = 60 * 60 * 1000
           in if age > maxAge
              then (None, CacheDB_delete db contractAddress chain scanDepth)
              else (case parse (row_result row) of
                      Some v \<Rightarrow> (Some v, db)
                    | None \<Rightarrow> (None, db))))"

section \<open>liquidity.js\<close>

definition KNOWN_LOCKERS :: "string list" where
  "KNOWN_LOCKERS =
     [''0x663a5c229c09b049e36dcc11a9b0d4a8eb9db214'',
      ''0x71B5759d73262FBb223956913ecF4ecC51057641'',
      ''0x407993575c91ce7643a4d4cCACc9A98c36eE1BBE'',
      ''0x000000000000000000000000000000000000dead'']"

definition burnAddress :: string where
  "burnAddress = ''0x000000000000000000000000000000000000dead''"

definition zeroAddress :: string where
  "zeroAddress = ''0x0000000000000000000000000000000000000000''"

text \<open>A token transfer; \<open>tr_value\<close> is \<open>BigInt(transfer.value || 0)\<close>.\<close>

record transfer =
  tr_from :: string
  tr_to :: string
  tr_value :: int

text \<open>
  An entry of \<open>holders\<close>.  \<open>h_percentage\<close> is the number that the text
  \<open>percentage.toFixed(2)\<close> denotes: hundredths, from the truncated basis points.
\<close>

record lpHolder =
  h_address :: string
  h_balance :: int
  h_percentage :: rat
  h_isLocker :: bool
  h_isBurned :: bool

record liquidityFinding =
  lf_type :: string
  lf_severity :: string
  lf_score :: int

record pairAnalysis =
  pa_locked :: bool
  pa_burned :: bool
  pa_holders :: "lpHolder list"
  pa_findings :: "liquidityFinding list"

text \<open>
  The \<open>Map\<close> of balances, in insertion order: \<open>set\<close> replaces the value of a key
  that is present and appends a new key.
\<close>

fun mapSet :: "(string \<times> int) list \<Rightarrow> string \<Rightarrow> int \<Rightarrow> (string \<times> int) list" where
  "mapSet [] k v = [(k, v)]"
| "mapSet ((k', v') # kvs) k v = (if k' = k then (k, v) # kvs else (k', v') # mapSet kvs k v)"

text \<open>\<open>balances.get(k) || BigInt(0)\<close>.\<close>

definition mapGetOr0 :: "(string \<times> int) list \<Rightarrow> string \<Rightarrow> int" where
  "mapGetOr0 kvs k = (case map_of kvs k of None \<Rightarrow> 0 | Some v \<Rightarrow> v)"

definition applyTransfer :: "transfer \<Rightarrow> (string \<times> int) list \<Rightarrow> (string \<times> int) list" where
  "applyTransfer t balances =
     (let from = toLowerCase (tr_from t);
          to = toLowerCase (tr_to t);
          val = tr_value t;
          balances =
            (if from \<noteq> zeroAddress
             then (let currentFrom = mapGetOr0 balances from
                   in mapSet balances from (currentFrom - val))
             else balances);
          currentTo = mapGetOr0 balances to
      in mapSet balances to (currentTo + val))"

text \<open>
  The loop over \<open>balances.entries()\<close>.  The BigInt division throws a RangeError when
  \<open>totalSupply\<close> is zero; the flag of the result is \<open>False\<close> then, and the analysis is
  as the loop left it.
\<close>

fun scanHolders :: "nat \<Rightarrow> (string \<times> int) list \<Rightarrow> pairAnalysis \<Rightarrow> pairAnalysis \<times> bool" where
  "scanHolders totalSupply [] analysis = (analysis, True)"
| "scanHolders totalSupply ((address, balance) # rest) analysis =
     (if balance \<le> 0 then scanHolders totalSupply rest analysis
      else if totalSupply = 0 then (analysis, False)
      else (let percentage = (of_int ((balance * 10000) div int totalSupply) :: rat) / 100
            in if percentage < 1 then scanHolders totalSupply rest analysis
               else (let analysis =
                           (if address = burnAddress \<or> address = zeroAddress
                            then analysis\<lparr>pa_burned := True, pa_locked := True\<rparr>
                            else analysis);
                         analysis =
                           (if address \<in> set KNOWN_LOCKERS
                            then analysis\<lparr>pa_locked := True\<rparr>
                            else analysis);
                         analysis = analysis\<lparr>pa_holders := pa_holders analysis @
                           [\<lparr>h_address = address, h_balance = balance,
                             h_percentage = percentage,
                             h_isLocker = (address \<in> set KNOWN_LOCKERS),
                             h_isBurned = (address = burnAddress \<or> address = zeroAddress)\<rparr>]\<rparr>
                     in scanHolders totalSupply rest analysis)))"

definition emptyPairAnalysis :: pairAnalysis where
  "emptyPairAnalysis = \<lparr>pa_locked = False, pa_burned = False, pa_holders = [], pa_findings = []\<rparr>"

text \<open>
  \<open>analyzeLiquidityPair\<close>, from what the two remote calls give: the LP token's
  transfers and its total supply, \<open>None\<close> where the call throws.  The holders are
  sorted by balance, largest first (the sort is stable).
\<close>

definition analyzeLiquidityPair :: "transfer list option \<Rightarrow> nat option \<Rightarrow> pairAnalysis" where
  "analyzeLiquidityPair lpTransfers totalSupply =
     (let analysis = emptyPairAnalysis
      in case lpTransfers of None \<Rightarrow> analysis
         | Some transfers \<Rightarrow>
             (let balances = fold applyTransfer transfers []
              in case totalSupply of None \<Rightarrow> analysis
                 | Some supply \<Rightarrow>
                     (let (analysis, completed) = scanHolders supply balances analysis
                      in if completed
                         then analysis\<lparr>pa_holders :=
                                sort_key (\<lambda>h. - h_balance h) (pa_holders analysis)\<rparr>
                         else analysis)))"

record pairData =
  pd_address :: string
  pd_lpTransfers :: "transfer list option"
  pd_totalSupply :: "nat option"

record liquidityAnalysis =
  la_hasLiquidity :: bool
  la_liquidityPairs :: "string list"
  la_lpLocked :: bool
  la_lpBurned :: bool
  la_lpHolders :: "lpHolder list"
  la_score :: int
  la_findings :: "liquidityFinding list"

definition emptyLiquidityAnalysis :: liquidityAnalysis where
  "emptyLiquidityAnalysis =
     \<lparr>la_hasLiquidity = False, la_liquidityPairs = [], la_lpLocked = False, la_lpBurned = False,
      la_lpHolders = [], la_score = 0, la_findings = []\<rparr>"

text \<open>The body of the loop over the pairs.\<close>

definition addPair :: "pairData \<Rightarrow> liquidityAnalysis \<Rightarrow> liquidityAnalysis" where
  "addPair pair analysis =
     (let pairAnalysis = analyzeLiquidityPair (pd_lpTransfers pair) (pd_totalSupply pair);
          analysis = (if pa_locked pairAnalysis then analysis\<lparr>la_lpLocked := True\<rparr> else analysis);
          analysis = (if pa_burned pairAnalysis then analysis\<lparr>la_lpBurned := True\<rparr> else analysis)
      in analysis\<lparr>la_lpHolders := la_lpHolders analysis @ pa_holders pairAnalysis,
                  la_findings := la_findings analysis @ pa_findings pairAnalysis\<rparr>)"

text \<open>
  \<open>analyzeLiquidity\<close>, from the deployer (\<open>contractInfo.creator\<close>) and what
  \<open>findLiquidityPairs\<close> and the remote calls give for every pair.
\<close>

definition analyzeLiquidity :: "string option \<Rightarrow> pairData list \<Rightarrow> liquidityAnalysis" where
  "analyzeLiquidity creator pairs =
     (let analysis = emptyLiquidityAnalysis
      in if pairs = []
         then analysis\<lparr>la_findings := la_findings analysis @
                  [\<lparr>lf_type = ''no_liquidity_found'', lf_severity = ''medium'', lf_score = 5\<rparr>],
                la_score := la_score analysis + 5\<rparr>
         else (let analysis = analysis\<lparr>la_hasLiquidity := True,
                                         la_liquidityPairs := map pd_address pairs\<rparr>;
                   analysis = fold addPair pairs analysis
               in if la_lpLocked analysis \<or> la_lpBurned analysis
                  then analysis\<lparr>la_score := la_score analysis - 10,
                         la_findings := la_findings analysis @
                           [\<lparr>lf_type = ''liquidity_locked'', lf_severity = ''safe'', lf_score = - 10\<rparr>]\<rparr>
                  else (let creatorHoldsLP =
                              list_ex (\<lambda>holder.
                                  Some (toLowerCase (h_address holder)) = map_option toLowerCase creator
                                  \<and> h_percentage holder > 50)
                                (la_lpHolders analysis)
                        in if creatorHoldsLP
                           then analysis\<lparr>la_score := la_score analysis + 15,
                                  la_findings := la_findings analysis @
                                    [\<lparr>lf_type = ''liquidity_not_locked'', lf_severity = ''high'',
                                      lf_score = 15\<rparr>]\<rparr>
                           else analysis\<lparr>la_score := la_score analysis + 10,
                                  la_findings := la_findings analysis @
                                    [\<lparr>lf_type = ''liquidity_not_locked'', lf_severity = ''high'',
                                      lf_score = 10\<rparr>]\<rparr>)))"

section \<open>code-analyzer.js: the pattern tables\<close>

text \<open>
  The regular expressions of the tables, as syntax trees.  Every expression carries
  the flags \<open>gi\<close>: \<open>Lit\<close> is literal text compared without regard to case,
  \<open>Ws\<close> is \<open>\s\<close>, \<open>AnyChar\<close> is the dot, \<open>NoneOf cs\<close> is \<open>[^cs]\<close>,
  \<open>InRange a b\<close> is \<open>[a-b]\<close>.
\<close>

datatype regex =
    Eps
  | Lit string
  | Ws
  | AnyChar
  | NoneOf string
  | InRange char char
  | Cat regex regex
  | Alt regex regex
  | Star regex

definition plus :: "regex \<Rightarrow> regex" where
  "plus r = Cat r (Star r)"

definition seq :: "regex list \<Rightarrow> regex" where
  "seq rs = foldr Cat rs Eps"

record redFlagPattern =
  rf_key :: string
  rf_patterns :: "regex list"
  rf_modifiers :: "string list"
  rf_severity :: string
  rf_description :: string
  rf_score :: int

definition hiddenMintPatterns :: "regex list" where
  "hiddenMintPatterns =
     [seq [Lit ''function'', plus Ws, Lit ''mint'', Star Ws, Lit ''('', Star (NoneOf '')''),
           Lit '')'', Star (NoneOf ''{''), Lit ''{''],
      seq [Lit ''_mint'', Star Ws, Lit ''(''],
      seq [Lit ''.mint'', Star Ws, Lit ''('']]"

definition hiddenMintModifiers :: "string list" where
  "hiddenMintModifiers = [''onlyOwner'', ''onlyAdmin'', ''onlyMinter'']"

text \<open>\<open>NAME\s*=\s*([1-9][0-9]|100)\<close>, the shape of the four \<open>highTax\<close> expressions.\<close>

definition feeAssigned :: "string \<Rightarrow> regex" where
  "feeAssigned name =
     seq [Lit name, Star Ws, Lit ''='', Star Ws,
          Alt (Cat (InRange CHR ''1'' CHR ''9'') (InRange CHR ''0'' CHR ''9'')) (Lit ''100'')]"

text \<open>\<open>\/\/.*W1.*W2...\<close> and \<open>\/\*.*W1.*W2....*\*\/\<close>, the shapes of the comment expressions.\<close>

definition lineComment :: "string list \<Rightarrow> regex" where
  "lineComment ws = seq (Lit ''//'' # concat (map (\<lambda>w. [Star AnyChar, Lit w]) ws))"

definition blockComment :: "string list \<Rightarrow> regex" where
  "blockComment ws =
     seq (Lit ''/*'' # concat (map (\<lambda>w. [Star AnyChar, Lit w]) ws) @ [Star AnyChar, Lit ''*/''])"

definition RED_FLAG_PATTERNS :: "redFlagPattern list" where
  "RED_FLAG_PATTERNS =
     [\<lparr>rf_key = ''hiddenMint'', rf_patterns = hiddenMintPatterns,
       rf_modifiers = hiddenMintModifiers, rf_severity = ''critical'',
       rf_description = ''Contract owner can mint unlimited tokens'', rf_score = 15\<rparr>,
      \<lparr>rf_key = ''selfDestruct'',
       rf_patterns = [seq [Lit ''selfdestruct'', Star Ws, Lit ''(''],
                      seq [Lit ''suicide'', Star Ws, Lit ''('']],
       rf_modifiers = [], rf_severity = ''critical'',
       rf_description = ''Contract can be destroyed by owner'', rf_score = 15\<rparr>,
      \<lparr>rf_key = ''honeypot'',
       rf_patterns = [seq [Lit ''blacklist'', Star Ws, Lit ''[''],
                      Lit ''isBlacklisted'',
                      Lit ''_isExcluded'',
                      seq [Lit ''canSell'', Star Ws, Lit ''(''],
                      seq [Lit ''canTransfer'', Star Ws, Lit ''('']],
       rf_modifiers = [], rf_severity = ''critical'',
       rf_description = ''Potential honeypot - can block transfers'', rf_score = 15\<rparr>,
      \<lparr>rf_key = ''delegatecall'',
       rf_patterns = [seq [Lit ''delegatecall'', Star Ws, Lit ''(''],
                      seq [Lit ''.delegatecall'', Star Ws, Lit ''('']],
       rf_modifiers = [], rf_severity = ''critical'',
       rf_description = ''Uses delegatecall - potential backdoor'', rf_score = 15\<rparr>,
      \<lparr>rf_key = ''pausable'',
       rf_patterns = [seq [Lit ''function'', plus Ws, Lit ''pause'', Star Ws, Lit ''(''],
                      seq [Lit ''function'', plus Ws, Lit ''unpause'', Star Ws, Lit ''(''],
                      seq [Lit ''_pause'', Star Ws, Lit ''(''],
                      Lit ''whenNotPaused''],
       rf_modifiers = [], rf_severity = ''high'',
       rf_description = ''Owner can pause all transfers'', rf_score = 10\<rparr>,
      \<lparr>rf_key = ''modifiableTax'',
       rf_patterns = [Lit ''setTaxFee'', Lit ''setBuyFee'', Lit ''setSellFee'',
                      seq [Lit ''setFee'', Star Ws, Lit ''(''],
                      Lit ''updateFee''],
       rf_modifiers = [], rf_severity = ''high'',
       rf_description = ''Owner can modify trading fees'', rf_score = 10\<rparr>,
      \<lparr>rf_key = ''highTax'',
       rf_patterns = [feeAssigned ''_taxFee'', feeAssigned ''taxFee'',
                      feeAssigned ''buyFee'', feeAssigned ''sellFee''],
       rf_modifiers = [], rf_severity = ''high'',
       rf_description = ''High trading fees detected (>10%)'', rf_score = 10\<rparr>,
      \<lparr>rf_key = ''ownership'',
       rf_patterns = [seq [Lit ''transferOwnership'', Star Ws, Lit ''(''],
                      seq [Lit ''renounceOwnership'', Star Ws, Lit ''('']],
       rf_modifiers = [], rf_severity = ''medium'',
       rf_description = ''Ownership can be transferred'', rf_score = 5\<rparr>,
      \<lparr>rf_key = ''maxTransaction'',
       rf_patterns = [Lit ''maxTxAmount'', Lit ''_maxTxAmount'', Lit ''setMaxTx'',
                      Lit ''maxTransactionAmount''],
       rf_modifiers = [], rf_severity = ''medium'',
       rf_description = ''Maximum transaction limits enforced'', rf_score = 5\<rparr>,
      \<lparr>rf_key = ''maxWallet'',
       rf_patterns = [Lit ''maxWallet'', Lit ''_maxWalletSize'', Lit ''maxWalletAmount''],
       rf_modifiers = [], rf_severity = ''medium'',
       rf_description = ''Maximum wallet size limits enforced'', rf_score = 5\<rparr>,
      \<lparr>rf_key = ''antiBot'',
       rf_patterns = [seq [Lit ''isBot'', Star Ws, Lit ''[''],
                      seq [Lit ''bots'', Star Ws, Lit ''[''],
                      seq [Lit ''addBot'', Star Ws, Lit ''(''],
                      Lit ''antiBot''],
       rf_modifiers = [], rf_severity = ''medium'',
       rf_description = ''Anti-bot mechanisms present'', rf_score = 5\<rparr>,
      \<lparr>rf_key = ''cooldown'',
       rf_patterns = [Lit ''cooldown'', Lit ''buycooldown'', Lit ''sellcooldown''],
       rf_modifiers = [], rf_severity = ''medium'',
       rf_description = ''Cooldown periods enforced'', rf_score = 5\<rparr>,
      \<lparr>rf_key = ''scamKeywordsInCode'',
       rf_patterns = [lineComment [''scam''], blockComment [''scam''],
                      lineComment [''honeypot''], blockComment [''honeypot''],
                      lineComment [''rug''], blockComment [''rug''],
                      lineComment [''exit'', ''scam''], blockComment [''exit'', ''scam''],
                      lineComment [''warning'', ''do'', ''not'', ''buy''],
                      blockComment [''warning'', ''do'', ''not'', ''buy'']],
       rf_modifiers = [], rf_severity = ''critical'',
       rf_description = ''Scam-related keywords found in source code comments'',
       rf_score = 30\<rparr>]"

record safePatternRule =
  sr_key :: string
  sr_patterns :: "regex list"
  sr_description :: string
  sr_score :: int

definition SAFE_PATTERNS :: "safePatternRule list" where
  "SAFE_PATTERNS =
     [\<lparr>sr_key = ''renounceOwnership'',
       sr_patterns = [seq [Lit ''renounceOwnership'', Star Ws, Lit ''('', Star Ws, Lit '')'',
                           Star Ws, Lit ''public''],
                      seq [Lit ''renounceOwnership'', Star Ws, Lit ''('', Star Ws, Lit '')'',
                           Star Ws, Lit ''external'']],
       sr_description = ''Ownership can be renounced'', sr_score = - 10\<rparr>,
      \<lparr>sr_key = ''timelockPresent'',
       sr_patterns = [Lit ''timelock'', Lit ''TimelockController'',
                      seq [Lit ''delay'', Star Ws, Lit ''='', Star Ws,
                           plus (InRange CHR ''0'' CHR ''9''), Star Ws, Lit ''days'']],
       sr_description = ''Timelock mechanism present'', sr_score = - 10\<rparr>,
      \<lparr>sr_key = ''audited'',
       sr_patterns = [Lit ''@audit'', Lit ''audited by'', Lit ''security audit''],
       sr_description = ''Contract mentions audit'', sr_score = - 5\<rparr>,
      \<lparr>sr_key = ''openZeppelin'',
       sr_patterns = [seq [Lit ''import'', Star AnyChar, Lit ''@openzeppelin''],
                      Lit ''OpenZeppelin''],
       sr_description = ''Uses OpenZeppelin contracts'', sr_score = - 5\<rparr>]"

section \<open>code-analyzer.js: analyzeSourceCode\<close>

text \<open>
  \<open>sourceCode.match(regex)\<close> is the parameter \<open>match\<close>: the list of all matches,
  empty where the source gives \<open>null\<close>.
\<close>

type_synonym matcher = "regex \<Rightarrow> string \<Rightarrow> string list"

text \<open>\<open>evidence.join(', ')\<close>.\<close>

fun joinWith :: "string \<Rightarrow> string list \<Rightarrow> string" where
  "joinWith sep [] = []"
| "joinWith sep [x] = x"
| "joinWith sep (x # y # ys) = x @ sep @ joinWith sep (y # ys)"

text \<open>
  The inner loop over the expressions of one rule: \<open>found\<close> and \<open>evidence\<close>, with at
  most \<open>limit\<close> examples for each expression.
\<close>

definition scanPatterns :: "matcher \<Rightarrow> nat \<Rightarrow> regex list \<Rightarrow> string \<Rightarrow> bool \<times> string list" where
  "scanPatterns match limit patterns sourceCode =
     fold (\<lambda>regex (found, evidence).
             (let matches = match regex sourceCode
              in if matches \<noteq> [] then (True, evidence @ take limit matches)
                 else (found, evidence)))
       patterns (False, [])"

definition hasRestrictedModifier :: "string list \<Rightarrow> string \<Rightarrow> bool" where
  "hasRestrictedModifier modifiers sourceCode =
     list_ex (\<lambda>modifier. str_includes (toLowerCase sourceCode) (toLowerCase modifier)) modifiers"

text \<open>The body of the loop over \<open>RED_FLAG_PATTERNS\<close>, on \<open>vulnerabilities\<close> and \<open>score\<close>.\<close>

definition redFlagStep ::
  "matcher \<Rightarrow> string \<Rightarrow> bool \<Rightarrow> redFlagPattern \<Rightarrow> vulnerability list \<times> int
     \<Rightarrow> vulnerability list \<times> int" where
  "redFlagStep match sourceCode isProxy pattern acc =
     (let (vulnerabilities, score) = acc;
          key = rf_key pattern;
          (found, evidence) = scanPatterns match 3 (rf_patterns pattern) sourceCode;
          (found, evidence) =
            (if key = ''hiddenMint'' \<and> found
             then (if hasRestrictedModifier (rf_modifiers pattern) sourceCode
                   then (found, evidence) else (False, []))
             else (found, evidence));
          (vulnerabilities, score, found) =
            (if key = ''delegatecall'' \<and> found \<and> isProxy
             then (vulnerabilities @
                     [\<lparr>v_type = key, v_severity = ''low'',
                       v_description = ''Proxy contract uses delegatecall (expected behavior)'',
                       v_evidence = joinWith '', '' evidence, v_score = 2\<rparr>],
                   score + 2, False)
             else (vulnerabilities, score, found))
      in if found
         then (vulnerabilities @
                 [\<lparr>v_type = key, v_severity = rf_severity pattern,
                   v_description = rf_description pattern,
                   v_evidence = joinWith '', '' evidence, v_score = rf_score pattern\<rparr>],
               score + rf_score pattern)
         else (vulnerabilities, score))"

text \<open>The body of the loop over \<open>SAFE_PATTERNS\<close>, on \<open>safePatterns\<close> and \<open>score\<close>.\<close>

definition safeStep ::
  "matcher \<Rightarrow> string \<Rightarrow> safePatternRule \<Rightarrow> safePattern list \<times> int \<Rightarrow> safePattern list \<times> int" where
  "safeStep match sourceCode pattern acc =
     (let (safePatterns, score) = acc;
          (found, evidence) = scanPatterns match 2 (sr_patterns pattern) sourceCode
      in if found
         then (safePatterns @
                 [\<lparr>sp_type = sr_key pattern, sp_description = sr_description pattern,
                   sp_evidence = joinWith '', '' evidence, sp_score = sr_score pattern\<rparr>],
               score + sr_score pattern)
         else (safePatterns, score))"

text \<open>
  \<open>analyzeSourceCode\<close> over given tables; the program runs it on
  \<open>RED_FLAG_PATTERNS\<close> and \<open>SAFE_PATTERNS\<close>.
\<close>

definition analyzeSourceCodeOn ::
  "redFlagPattern list \<Rightarrow> safePatternRule list \<Rightarrow> matcher \<Rightarrow> string option \<Rightarrow> bool
     \<Rightarrow> codeAnalysis" where
  "analyzeSourceCodeOn redFlags safeRules match sourceCode isProxy =
     (if orEmpty sourceCode = []
      then \<lparr>ca_analyzed = False, ca_vulnerabilities = [], ca_safePatterns = [], ca_score = 0\<rparr>
      else (let src = orEmpty sourceCode;
                (vulnerabilities, score) = fold (redFlagStep match src isProxy) redFlags ([], 0);
                (safePatterns, score) = fold (safeStep match src) safeRules ([], score)
            in \<lparr>ca_analyzed = True, ca_vulnerabilities = vulnerabilities,
                ca_safePatterns = safePatterns, ca_score = score\<rparr>))"

definition analyzeSourceCode :: "matcher \<Rightarrow> string option \<Rightarrow> bool \<Rightarrow> codeAnalysis" where
  "analyzeSourceCode match sourceCode isProxy =
     analyzeSourceCodeOn RED_FLAG_PATTERNS SAFE_PATTERNS match sourceCode isProxy"

subsection \<open>A regular-expression engine to run the analyzer\<close>

text \<open>
  A backtracking engine for the expressions above: \<open>run r s\<close> lists, in the order a
  backtracking search tries them (the star is greedy), what is left of \<open>s\<close> after a
  match of \<open>r\<close> at its start.
\<close>

definition isSpace :: "char \<Rightarrow> bool" where
  "isSpace c = (c \<in> set [CHR '' '', CHR 0x09, CHR 0x0A, CHR 0x0B, CHR 0x0C, CHR 0x0D])"

definition isLineEnd :: "char \<Rightarrow> bool" where
  "isLineEnd c = (c = CHR 0x0A \<or> c = CHR 0x0D)"

fun run :: "regex \<Rightarrow> string \<Rightarrow> string list" where
  "run Eps s = [s]"
| "run (Lit l) s =
     (if startsWith (toLowerCase s) (toLowerCase l) then [drop (length l) s] else [])"
| "run Ws s = (case s of [] \<Rightarrow> [] | c # cs \<Rightarrow> if isSpace c then [cs] else [])"
| "run AnyChar s = (case s of [] \<Rightarrow> [] | c # cs \<Rightarrow> if isLineEnd c then [] else [cs])"
| "run (NoneOf xs) s = (case s of [] \<Rightarrow> [] | c # cs \<Rightarrow> if c \<in> set xs then [] else [cs])"
| "run (InRange a b) s =
     (case s of [] \<Rightarrow> []
      | c # cs \<Rightarrow> if (of_char a :: nat) \<le> of_char c \<and> (of_char c :: nat) \<le> of_char b
                  then [cs] else [])"
| "run (Cat r1 r2) s = concat (map (run r2) (run r1 s))"
| "run (Alt r1 r2) s = run r1 s @ run r2 s"
| "run (Star r) s =
     concat (map (\<lambda>s'. if length s' < length s then run (Star r) s' else []) (run r s)) @ [s]"

text \<open>
  All matches, left to right: after a match of length \<open>n\<close> the search resumes behind
  it (\<open>skip\<close> counts the characters still to pass over).
\<close>

fun matchesFrom :: "regex \<Rightarrow> nat \<Rightarrow> string \<Rightarrow> string list" where
  "matchesFrom r skip [] = []"
| "matchesFrom r (Suc skip) (c # cs) = matchesFrom r skip cs"
| "matchesFrom r 0 (c # cs) =
     (case run r (c # cs) of
        [] \<Rightarrow> matchesFrom r 0 cs
      | rest # _ \<Rightarrow>
          (let n = length (c # cs) - length rest
           in take n (c # cs) # matchesFrom r (n - 1) cs))"

definition regexMatch :: matcher where
  "regexMatch r s = matchesFrom r 0 s"

section \<open>The aggregation as the specification words it\<close>

definition scoreOf :: "riskResult option \<Rightarrow> int" where
  "scoreOf r = (case r of None \<Rightarrow> 0 | Some x \<Rightarrow> rr_score x)"

definition findingsTotal :: "derivedFinding list \<Rightarrow> int" where
  "findingsTotal fs = sum_list (map df_score fs)"

definition clampScore :: "rat \<Rightarrow> rat" where
  "clampScore x = max 0 (min 100 x)"

text \<open>
  The contribution of the code: the analyzer's score where the source was analyzed,
  and 15 for an unverified contract otherwise.
\<close>

definition codeContribution :: "analyses \<Rightarrow> int" where
  "codeContribution a =
     (if (case an_codeAnalysis a of None \<Rightarrow> False | Some ca \<Rightarrow> ca_analyzed ca)
      then (case an_codeAnalysis a of None \<Rightarrow> 0 | Some ca \<Rightarrow> ca_score ca)
      else if ci_verified_opt (an_contractInfo a) then 0 else 15)"

definition analyzerContributions :: "analyses \<Rightarrow> int" where
  "analyzerContributions a =
     codeContribution a
     + (case an_ownershipAnalysis a of None \<Rightarrow> 0 | Some oa \<Rightarrow> oa_score oa)
     + (case an_liquidityAnalysis a of None \<Rightarrow> 0 | Some la \<Rightarrow> ls_score la)
     + scoreOf (an_behaviorAnalysis a)"

definition oracleContributions :: "analyses \<Rightarrow> int" where
  "oracleContributions a =
     scoreOf (an_tokenSnifferRisk a) + scoreOf (an_goplusRisk a)
     + (case an_creatorHistoryAnalysis a of None \<Rightarrow> 0 | Some ch \<Rightarrow> ch_score ch)
     + scoreOf (an_holderAnalysis a) + scoreOf (an_creatorHoldingAnalysis a)"

definition suspiciousTotal :: "analyses \<Rightarrow> int" where
  "suspiciousTotal a = findingsTotal (detectSuspiciousPatterns (an_contractInfo a))"

definition apiNotFoundTotal :: "analyses \<Rightarrow> int" where
  "apiNotFoundTotal a =
     findingsTotal (detectAPINotFound (an_tokenSnifferResult a) (an_goplusResult a) (an_contractInfo a))"

text \<open>The two sums as the code forms them.\<close>

definition internalSum :: "analyses \<Rightarrow> int" where
  "internalSum a = analyzerContributions a + suspiciousTotal a"

definition externalSum :: "analyses \<Rightarrow> int" where
  "externalSum a = oracleContributions a + apiNotFoundTotal a"

text \<open>
  The two sums as the specification states them: the findings of both detectors are
  counted with the oracles.
\<close>

definition statedInternal :: "analyses \<Rightarrow> int" where
  "statedInternal a = analyzerContributions a"

definition statedExternal :: "analyses \<Rightarrow> int" where
  "statedExternal a = oracleContributions a + apiNotFoundTotal a + suspiciousTotal a"

definition weighted :: "int \<Rightarrow> int \<Rightarrow> rat" where
  "weighted internal external =
     clampScore (50 + 4 / 10 * of_int internal + 6 / 10 * of_int external)"

section \<open>Example inputs\<close>

definition noAnalyses :: analyses where
  "noAnalyses =
     \<lparr>an_codeAnalysis = None, an_ownershipAnalysis = None, an_liquidityAnalysis = None,
      an_behaviorAnalysis = None, an_contractInfo = None, an_tokenSnifferRisk = None,
      an_tokenSnifferResult = None, an_goplusRisk = None, an_goplusResult = None,
      an_creatorHistoryAnalysis = None, an_holderAnalysis = None,
      an_creatorHoldingAnalysis = None\<rparr>"

definition analyzedCode :: "int \<Rightarrow> codeAnalysis" where
  "analyzedCode n =
     \<lparr>ca_analyzed = True, ca_vulnerabilities = [], ca_safePatterns = [], ca_score = n\<rparr>"

definition token :: "string \<Rightarrow> string \<Rightarrow> string \<Rightarrow> contractInfo" where
  "token address name symbol =
     \<lparr>ci_address = Some address, ci_name = Some name, ci_symbol = Some symbol,
      ci_verified = True, ci_ageInDays = 400, ci_transactionCount = 100,
      ci_creator = Some ''0x1111111111111111111111111111111111111111'',
      ci_creationTxHash = None\<rparr>"

definition exHoneypot :: analyses where
  "exHoneypot =
     noAnalyses\<lparr>an_contractInfo :=
       Some (token ''0x2222222222222222222222222222222222222222'' ''Totally Safe HoneyPot'' ''TSH'')\<rparr>"

definition exListedScam :: analyses where
  "exListedScam =
     noAnalyses\<lparr>an_contractInfo :=
       Some (token ''0xA0b86991c6218b36c1d19D4a2e9Eb0cE3606eB48'' ''Fake USD Coin'' ''USDC'')\<rparr>"

definition exListedWarning :: analyses where
  "exListedWarning =
     noAnalyses\<lparr>an_contractInfo :=
       Some (token ''0xdAC17F958D2ee523a2206206994597C13D831ec7'' ''Tether USD'' ''WARNING'')\<rparr>"

text \<open>
  A listed address whose name and symbol hold no keyword each, while the text of both
  holds \<open>rug pull\<close>.
\<close>

definition exListedRugPull :: analyses where
  "exListedRugPull =
     noAnalyses\<lparr>an_contractInfo :=
       Some (token ''0xA0b86991c6218b36c1d19D4a2e9Eb0cE3606eB48'' ''Rug'' ''Pull'')\<rparr>"

definition exListedRisky :: analyses where
  "exListedRisky =
     noAnalyses\<lparr>an_contractInfo :=
       Some (token ''0xA0b86991c6218b36c1d19D4a2e9Eb0cE3606eB48'' ''USD Coin'' ''USDC''),
       an_codeAnalysis := Some (analyzedCode 0),
       an_goplusRisk := Some \<lparr>rr_score = 80\<rparr>\<rparr>"

definition exOldQuiet :: analyses where
  "exOldQuiet =
     noAnalyses\<lparr>an_contractInfo :=
       Some (token ''0x2222222222222222222222222222222222222222'' ''Quiet'' ''QT''),
       an_codeAnalysis := Some (analyzedCode 0)\<rparr>"

section \<open>The confidence as the specification words it\<close>

definition signal :: "bool \<Rightarrow> rat \<Rightarrow> rat" where
  "signal present amount = (if present then amount else 0)"

definition sourceAnalyzed :: "analyses \<Rightarrow> bool" where
  "sourceAnalyzed a =
     (ci_verified_opt (an_contractInfo a)
      \<and> (case an_codeAnalysis a of None \<Rightarrow> False | Some ca \<Rightarrow> ca_analyzed ca))"

definition ownershipKnown :: "analyses \<Rightarrow> bool" where
  "ownershipKnown a =
     (case an_ownershipAnalysis a of None \<Rightarrow> False | Some oa \<Rightarrow> oa_hasOwner oa \<noteq> None)"

definition liquidityKnown :: "analyses \<Rightarrow> bool" where
  "liquidityKnown a =
     (case an_liquidityAnalysis a of None \<Rightarrow> False | Some la \<Rightarrow> ls_hasLiquidity la \<noteq> None)"

definition olderThanWeek :: "analyses \<Rightarrow> bool" where
  "olderThanWeek a = (case an_contractInfo a of None \<Rightarrow> False | Some i \<Rightarrow> ci_ageInDays i > 7)"

definition tokenSnifferChecked :: "analyses \<Rightarrow> bool" where
  "tokenSnifferChecked a =
     (case an_tokenSnifferResult a of None \<Rightarrow> False | Some t \<Rightarrow> ts_checked t)"

definition goplusChecked :: "analyses \<Rightarrow> bool" where
  "goplusChecked a = (case an_goplusResult a of None \<Rightarrow> False | Some g \<Rightarrow> gp_checked g)"

definition creatorHistoryAnalyzed :: "analyses \<Rightarrow> bool" where
  "creatorHistoryAnalyzed a =
     (case an_creatorHistoryAnalysis a of None \<Rightarrow> False | Some ch \<Rightarrow> ch_analyzed ch)"

definition confidenceSum :: "analyses \<Rightarrow> rat" where
  "confidenceSum a =
     1 / 2
     + signal (sourceAnalyzed a) (15 / 100)
     + signal (ownershipKnown a) (5 / 100)
     + signal (liquidityKnown a) (5 / 100)
     + signal (olderThanWeek a) (5 / 100)
     + signal (tokenSnifferChecked a) (10 / 100)
     + signal (goplusChecked a) (15 / 100)
     + signal (creatorHistoryAnalyzed a) (10 / 100)"

section \<open>More example inputs\<close>

definition checkedGoPlus :: goplusResult where
  "checkedGoPlus =
     \<lparr>gp_checked = True, gp_is_honeypot = Some False, gp_hidden_owner = Some False,
      gp_cannot_sell_all = Some False, gp_buy_tax = Some 0, gp_sell_tax = Some 0\<rparr>"

definition honeypotGoPlus :: goplusResult where
  "honeypotGoPlus =
     \<lparr>gp_checked = True, gp_is_honeypot = Some True, gp_hidden_owner = Some True,
      gp_cannot_sell_all = Some True, gp_buy_tax = Some 99, gp_sell_tax = Some 99\<rparr>"

text \<open>Every signal of the confidence is present but the GoPlus check.\<close>

definition exAllButGoPlus :: analyses where
  "exAllButGoPlus =
     noAnalyses\<lparr>an_contractInfo :=
       Some (token ''0x2222222222222222222222222222222222222222'' ''Quiet'' ''QT''),
       an_codeAnalysis := Some (analyzedCode 0),
       an_ownershipAnalysis := Some \<lparr>oa_hasOwner = Some True, oa_score = 0\<rparr>,
       an_liquidityAnalysis := Some \<lparr>ls_hasLiquidity = Some True, ls_score = 0\<rparr>,
       an_tokenSnifferResult := Some \<lparr>ts_checked = True\<rparr>,
       an_creatorHistoryAnalysis := Some \<lparr>ch_analyzed = True, ch_score = 0\<rparr>\<rparr>"

text \<open>Only the age and the GoPlus check may count.\<close>

definition exYoungUnverified :: analyses where
  "exYoungUnverified =
     noAnalyses\<lparr>an_contractInfo :=
       Some ((token ''0x2222222222222222222222222222222222222222'' ''Quiet'' ''QT'')
               \<lparr>ci_verified := False, ci_ageInDays := 3\<rparr>)\<rparr>"

definition exRun :: "bool \<Rightarrow> goplusResult option \<Rightarrow> collected" where
  "exRun usingFallback goplus =
     \<lparr>co_usingFallback = usingFallback,
      co_contractInfo = token ''0x2222222222222222222222222222222222222222'' ''Quiet'' ''QT'',
      co_tokenName = Some ''Quiet'',
      co_tokenSymbol = Some ''QT'',
      co_codeAnalysis = analyzedCode 0,
      co_bytecodeFindings = [],
      co_ownershipAnalysis = \<lparr>oa_hasOwner = Some True, oa_score = 0\<rparr>,
      co_liquidityAnalysis = \<lparr>ls_hasLiquidity = Some False, ls_score = 0\<rparr>,
      co_behaviorAnalysis = \<lparr>rr_score = 0\<rparr>,
      co_tokenSnifferResult = None,
      co_tokenSnifferRisk = \<lparr>rr_score = 0\<rparr>,
      co_goplusResult = goplus,
      co_goplusRisk = \<lparr>rr_score = 0\<rparr>,
      co_creatorHistoryAnalysis = \<lparr>ch_analyzed = False, ch_score = 0\<rparr>,
      co_holderAnalysis = \<lparr>rr_score = 0\<rparr>,
      co_creatorHoldingAnalysis = \<lparr>rr_score = 0\<rparr>\<rparr>"

section \<open>Example inputs for the cache and the liquidity analyzer\<close>

text \<open>A parser for the examples: it accepts decimal numerals and throws on anything else.\<close>

definition parseNumber :: "string \<Rightarrow> nat option" where
  "parseNumber s =
     (if s \<noteq> [] \<and> list_all (\<lambda>c. c \<in> set ''0123456789'') s
      then Some (fold (\<lambda>c n. 10 * n + (of_char c - 48)) s 0) else None)"

text \<open>
  A table with a sound entry written at time 1000 and a corrupt one written at time
  5000.
\<close>

definition exCache :: scan_results where
  "exCache =
     CacheDB_set
       (CacheDB_set (\<lambda>k. None) 1000 ''0xAbC0000000000000000000000000000000000001'' ''Ethereum''
          ''quick'' ''42'')
       5000 ''0xabc0000000000000000000000000000000000002'' ''ethereum'' ''deep'' ''{oops''"

definition deployer :: string where
  "deployer = ''0x1111111111111111111111111111111111111111''"

text \<open>A pair whose LP tokens were all minted to the given holder.\<close>

definition mintedTo :: "string \<Rightarrow> pairData" where
  "mintedTo holder =
     \<lparr>pd_address = ''0x3333333333333333333333333333333333333333'',
      pd_lpTransfers = Some [\<lparr>tr_from = zeroAddress, tr_to = holder, tr_value = 1000\<rparr>],
      pd_totalSupply = Some 1000\<rparr>"

definition pinkLockETH :: string where
  "pinkLockETH = ''0x407993575c91ce7643a4d4cCACc9A98c36eE1BBE''"

definition unicrypt :: string where
  "unicrypt = ''0x663a5c229c09b049e36dcc11a9b0d4a8eb9db214''"

section \<open>The gating of the mint rule as the specification words it\<close>

definition mintPatternMatches :: "matcher \<Rightarrow> string \<Rightarrow> bool" where
  "mintPatternMatches match sourceCode =
     list_ex (\<lambda>regex. match regex sourceCode \<noteq> []) hiddenMintPatterns"

definition containsRestrictionModifier :: "string \<Rightarrow> bool" where
  "containsRestrictionModifier sourceCode =
     list_ex (\<lambda>modifier. str_includes (toLowerCase sourceCode) (toLowerCase modifier))
       [''onlyOwner'', ''onlyAdmin'', ''onlyMinter'']"

definition reported :: "string \<Rightarrow> codeAnalysis \<Rightarrow> bool" where
  "reported key analysis = (key \<in> set (map v_type (ca_vulnerabilities analysis)))"

text \<open>The first rule of \<open>RED_FLAG_PATTERNS\<close>.\<close>

definition hiddenMintRule :: redFlagPattern where
  "hiddenMintRule =
     \<lparr>rf_key = ''hiddenMint'', rf_patterns = hiddenMintPatterns,
      rf_modifiers = hiddenMintModifiers, rf_severity = ''critical'',
      rf_description = ''Contract owner can mint unlimited tokens'', rf_score = 15\<rparr>"

section \<open>Example sources\<close>

definition exRestrictedMint :: string where
  "exRestrictedMint =
     ''function mint(address to) public onlyOwner { _mint(to, 1); }''"

definition exOpenMint :: string where
  "exOpenMint =
     ''function mint(address to) public { _mint(to, 1); }''"

section \<open>Properties of the aggregator\<close>

lemma startsWith_iff: "startsWith s k \<longleftrightarrow> (\<exists>q. s = k @ q)"
proof
  assume "startsWith s k"
  then have "s = k @ drop (length k) s"
    unfolding startsWith_def by (metis append_take_drop_id)
  then show "\<exists>q. s = k @ q" ..
next
  assume "\<exists>q. s = k @ q"
  then show "startsWith s k" unfolding startsWith_def by auto
qed

lemma str_includes_iff: "str_includes s k \<longleftrightarrow> (\<exists>p q. s = p @ k @ q)"
proof (induction s)
  case Nil
  show ?case by auto
next
  case (Cons c cs)
  show ?case
  proof
    assume "str_includes (c # cs) k"
    then consider "startsWith (c # cs) k" | "str_includes cs k" by auto
    then show "\<exists>p q. c # cs = p @ k @ q"
    proof cases
      case 1
      then obtain q where "c # cs = k @ q" using startsWith_iff by blast
      then have "c # cs = [] @ k @ q" by simp
      then show ?thesis by blast
    next
      case 2
      then obtain p q where "cs = p @ k @ q" using Cons.IH by blast
      then have "c # cs = (c # p) @ k @ q" by simp
      then show ?thesis by blast
    qed
  next
    assume "\<exists>p q. c # cs = p @ k @ q"
    then obtain p q where pq: "c # cs = p @ k @ q" by blast
    show "str_includes (c # cs) k"
    proof (cases p)
      case Nil
      then have "startsWith (c # cs) k" using pq startsWith_iff by auto
      then show ?thesis by simp
    next
      case (Cons d p')
      then have "cs = p' @ k @ q" using pq by simp
      then have "str_includes cs k" using Cons.IH by blast
      then show ?thesis by simp
    qed
  qed
qed

lemma str_includes_append_left: "str_includes s k \<Longrightarrow> str_includes (s @ t) k"
  unfolding str_includes_iff by (metis append.assoc)

lemma str_includes_append_right: "str_includes t k \<Longrightarrow> str_includes (s @ t) k"
  unfolding str_includes_iff by (metis append.assoc)

lemma toLowerCase_append: "toLowerCase (s @ t) = toLowerCase s @ toLowerCase t"
  by (simp add: toLowerCase_def)

lemma detectScamKeywords_hit:
  assumes "keyword \<in> set scamKeywords"
    and "str_includes (toLowerCase (orEmpty name)) keyword
         \<or> str_includes (toLowerCase (orEmpty symbol)) keyword"
  shows "isScam (detectScamKeywords name symbol)"
proof -
  have "str_includes (toLowerCase (orEmpty name) @ (toLowerCase '' '' @ toLowerCase (orEmpty symbol))) keyword"
    using assms(2) str_includes_append_left str_includes_append_right by blast
  then have "str_includes (toLowerCase (orEmpty name @ '' '' @ orEmpty symbol)) keyword"
    by (simp only: toLowerCase_append)
  then show ?thesis
    using assms(1) unfolding isScam_def detectScamKeywords_def Let_def
    by (auto simp: find_None_iff)
qed

lemma scam_returns_95:
  "isScam (detectScamKeywords (ci_name_opt (an_contractInfo a)) (ci_symbol_opt (an_contractInfo a)))
   \<Longrightarrow> calculateRiskScore a = 95"
  by (simp add: calculateRiskScore_def)

lemma not_scam_score:
  "\<not> isScam (detectScamKeywords (ci_name_opt (an_contractInfo a)) (ci_symbol_opt (an_contractInfo a)))
   \<Longrightarrow> calculateRiskScore a = Math_round (applyOverrides (an_contractInfo a) (weightedScore a))"
  by (simp add: calculateRiskScore_def)

text \<open>
  C1.  When the token's name or its symbol contains one of the scam keywords, without
  regard to case, \<open>calculateRiskScore\<close> returns 95 whatever the other inputs are:
  no weighted sum, no override and no rounding takes part.
\<close>

theorem scam_keyword_short_circuit:
  assumes "keyword \<in> set scamKeywords"
    and "str_includes (toLowerCase (orEmpty (ci_name_opt (an_contractInfo a)))) keyword
         \<or> str_includes (toLowerCase (orEmpty (ci_symbol_opt (an_contractInfo a)))) keyword"
  shows "calculateRiskScore a = 95"
  using detectScamKeywords_hit [OF assms] by (rule scam_returns_95)

theorem scam_keyword_short_circuit_witness:
  "''honeypot'' \<in> set scamKeywords
   \<and> str_includes (toLowerCase (orEmpty (ci_name_opt (an_contractInfo exHoneypot)))) ''honeypot''
   \<and> calculateRiskScore exHoneypot = 95"
proof -
  have k: "''honeypot'' \<in> set scamKeywords" by code_simp
  have n: "str_includes (toLowerCase (orEmpty (ci_name_opt (an_contractInfo exHoneypot)))) ''honeypot''"
    by code_simp
  from scam_keyword_short_circuit [of "''honeypot''" exHoneypot] k n
  show ?thesis by blast
qed

lemma KNOWN_SAFE_nonempty: "s \<in> set KNOWN_SAFE_TOKENS \<Longrightarrow> s \<noteq> []"
  unfolding KNOWN_SAFE_TOKENS_def by auto

lemma toLowerCase_Nil_iff: "toLowerCase s = [] \<longleftrightarrow> s = []"
  by (simp add: toLowerCase_def)

lemma onSafeList_iff:
  "onSafeList c \<longleftrightarrow>
     (\<exists>i address. c = Some i \<and> ci_address i = Some address
        \<and> toLowerCase address \<in> set KNOWN_SAFE_TOKENS)"
  unfolding onSafeList_def isKnownSafeToken_def Let_def
  using KNOWN_SAFE_nonempty toLowerCase_Nil_iff
  by (auto split: option.splits)

text \<open>
  C10.  The scam short-circuit comes before the known-safe override: for an address on
  the allow-list whose name or symbol contains a scam keyword, \<open>calculateRiskScore\<close>
  returns 95, and the cap of 15 is not applied.
\<close>

theorem scam_precedes_safe_list:
  assumes "an_contractInfo a = Some i"
    and "ci_address i = Some address"
    and "toLowerCase address \<in> set KNOWN_SAFE_TOKENS"
    and "keyword \<in> set scamKeywords"
    and "str_includes (toLowerCase (orEmpty (ci_name i))) keyword
         \<or> str_includes (toLowerCase (orEmpty (ci_symbol i))) keyword"
  shows "onSafeList (an_contractInfo a) \<and> calculateRiskScore a = 95 \<and> \<not> calculateRiskScore a \<le> 15"
proof -
  have "onSafeList (an_contractInfo a)"
    using assms(1,2,3) onSafeList_iff by blast
  moreover have "isScam (detectScamKeywords (ci_name_opt (an_contractInfo a)) (ci_symbol_opt (an_contractInfo a)))"
    using detectScamKeywords_hit [OF assms(4), of "ci_name i" "ci_symbol i"] assms(1,5)
    by (simp add: ci_name_opt_def ci_symbol_opt_def)
  then have "calculateRiskScore a = 95" by (rule scam_returns_95)
  ultimately show ?thesis by simp
qed

theorem scam_precedes_safe_list_witness:
  "toLowerCase ''0xA0b86991c6218b36c1d19D4a2e9Eb0cE3606eB48'' \<in> set KNOWN_SAFE_TOKENS
   \<and> ''fake'' \<in> set scamKeywords
   \<and> str_includes (toLowerCase ''Fake USD Coin'') ''fake''
   \<and> onSafeList (an_contractInfo exListedScam)
   \<and> calculateRiskScore exListedScam = 95"
proof -
  let ?i = "token ''0xA0b86991c6218b36c1d19D4a2e9Eb0cE3606eB48'' ''Fake USD Coin'' ''USDC''"
  have i: "an_contractInfo exListedScam = Some ?i"
    by (simp add: exListedScam_def noAnalyses_def)
  have a: "ci_address ?i = Some ''0xA0b86991c6218b36c1d19D4a2e9Eb0cE3606eB48''"
    by (simp add: token_def)
  have l: "toLowerCase ''0xA0b86991c6218b36c1d19D4a2e9Eb0cE3606eB48'' \<in> set KNOWN_SAFE_TOKENS"
    by code_simp
  have k: "''fake'' \<in> set scamKeywords"
    by code_simp
  have n: "str_includes (toLowerCase ''Fake USD Coin'') ''fake''"
    by code_simp
  have n': "str_includes (toLowerCase (orEmpty (ci_name ?i))) ''fake''"
    using n by (simp add: token_def)
  from scam_precedes_safe_list [OF i a l k] n' l k n
  show ?thesis by blast
qed

lemma Math_round_nonneg: "0 \<le> x \<Longrightarrow> 0 \<le> Math_round x"
  unfolding Math_round_def by simp

lemma Math_round_le: "x \<le> of_int n \<Longrightarrow> Math_round x \<le> n"
  unfolding Math_round_def by linarith

lemma weightedScore_range: "0 \<le> weightedScore a \<and> weightedScore a \<le> 100"
  unfolding weightedScore_def Let_def by (simp split: prod.split)

lemma applyOverrides_range:
  "0 \<le> f \<Longrightarrow> f \<le> 100 \<Longrightarrow> 0 \<le> applyOverrides c f \<and> applyOverrides c f \<le> 100"
  unfolding applyOverrides_def by auto

lemma applyOverrides_safe: "onSafeList c \<Longrightarrow> applyOverrides c f \<le> 15"
  unfolding applyOverrides_def by simp

lemma calculateRiskScore_range: "0 \<le> calculateRiskScore a \<and> calculateRiskScore a \<le> 100"
proof (cases "isScam (detectScamKeywords (ci_name_opt (an_contractInfo a)) (ci_symbol_opt (an_contractInfo a)))")
  case True
  then show ?thesis by (simp add: calculateRiskScore_def)
next
  case False
  have r: "0 \<le> applyOverrides (an_contractInfo a) (weightedScore a)"
       "applyOverrides (an_contractInfo a) (weightedScore a) \<le> of_int 100"
    using applyOverrides_range weightedScore_range by simp_all
  show ?thesis
    using False Math_round_nonneg [OF r(1)] Math_round_le [OF r(2)]
    by (simp add: calculateRiskScore_def)
qed

lemma calculateRPCOnlyRiskScore_range:
  "10 \<le> fr_score (calculateRPCOnlyRiskScore c g b) \<and> fr_score (calculateRPCOnlyRiskScore c g b) \<le> 100"
  unfolding calculateRPCOnlyRiskScore_def Let_def
  by (simp split: option.split prod.split)

lemma calculateConfidence_range: "1 / 2 \<le> calculateConfidence a \<and> calculateConfidence a \<le> 1"
  unfolding calculateConfidence_def Let_def
  by simp

lemma not_scam_iff:
  "\<not> isScam (detectScamKeywords name symbol)
     \<longleftrightarrow> (\<forall>keyword \<in> set scamKeywords.
            \<not> str_includes (toLowerCase (orEmpty name @ '' '' @ orEmpty symbol)) keyword)"
  unfolding isScam_def detectScamKeywords_def Let_def
  by (auto simp: find_None_iff)

text \<open>
  The detector searches the text of name and symbol joined by a space, so a keyword
  may be found although neither the name nor the symbol contains one: a listed
  address named Rug with the symbol Pull scores 95.
\<close>

lemma keyword_across_name_and_symbol:
  "list_all (\<lambda>keyword. \<not> str_includes (toLowerCase ''Rug'') keyword
                       \<and> \<not> str_includes (toLowerCase ''Pull'') keyword) scamKeywords
   \<and> str_includes (toLowerCase (''Rug'' @ '' '' @ ''Pull'')) ''rug pull''
   \<and> onSafeList (an_contractInfo exListedRugPull)
   \<and> calculateRiskScore exListedRugPull = 95"
  by code_simp

text \<open>
  C2, as amended.  For a contract whose lower-cased address is on the known-safe
  allow-list and for which no scam keyword occurs in the lower-cased text of the name,
  a space and the symbol (the text that \<open>detectScamKeywords\<close> searches),
  \<open>calculateRiskScore\<close> returns at most 15, whatever the weighted computation gives.
\<close>

theorem known_safe_cap:
  assumes "an_contractInfo a = Some i"
    and "ci_address i = Some address"
    and "toLowerCase address \<in> set KNOWN_SAFE_TOKENS"
    and "\<forall>keyword \<in> set scamKeywords.
           \<not> str_includes (toLowerCase (orEmpty (ci_name i) @ '' '' @ orEmpty (ci_symbol i))) keyword"
  shows "calculateRiskScore a \<le> 15"
proof -
  have "onSafeList (an_contractInfo a)"
    using assms(1,2,3) onSafeList_iff by blast
  then have "applyOverrides (an_contractInfo a) (weightedScore a) \<le> of_int 15"
    using applyOverrides_safe by simp
  then have "Math_round (applyOverrides (an_contractInfo a) (weightedScore a)) \<le> 15"
    by (rule Math_round_le)
  moreover have "\<not> isScam (detectScamKeywords (ci_name i) (ci_symbol i))"
    using assms(4) not_scam_iff [of "ci_name i" "ci_symbol i"] by blast
  then have "\<not> isScam (detectScamKeywords (ci_name_opt (an_contractInfo a)) (ci_symbol_opt (an_contractInfo a)))"
    using assms(1) by (simp add: ci_name_opt_def ci_symbol_opt_def)
  ultimately show ?thesis using not_scam_score by simp
qed

theorem known_safe_cap_witness:
  "toLowerCase ''0xA0b86991c6218b36c1d19D4a2e9Eb0cE3606eB48'' \<in> set KNOWN_SAFE_TOKENS
   \<and> list_all (\<lambda>keyword.
         \<not> str_includes (toLowerCase (''USD Coin'' @ '' '' @ ''USDC'')) keyword) scamKeywords
   \<and> weightedScore exListedRisky = 98
   \<and> calculateRiskScore exListedRisky \<le> 15"
proof -
  let ?i = "token ''0xA0b86991c6218b36c1d19D4a2e9Eb0cE3606eB48'' ''USD Coin'' ''USDC''"
  have i: "an_contractInfo exListedRisky = Some ?i"
    by (simp add: exListedRisky_def noAnalyses_def)
  have a: "ci_address ?i = Some ''0xA0b86991c6218b36c1d19D4a2e9Eb0cE3606eB48''"
    by (simp add: token_def)
  have l: "toLowerCase ''0xA0b86991c6218b36c1d19D4a2e9Eb0cE3606eB48'' \<in> set KNOWN_SAFE_TOKENS"
    by code_simp
  have n: "list_all (\<lambda>keyword.
         \<not> str_includes (toLowerCase (''USD Coin'' @ '' '' @ ''USDC'')) keyword) scamKeywords"
    by code_simp
  have n': "\<forall>keyword \<in> set scamKeywords.
         \<not> str_includes (toLowerCase (orEmpty (ci_name ?i) @ '' '' @ orEmpty (ci_symbol ?i))) keyword"
    using n by (simp add: token_def list_all_iff)
  have w: "weightedScore exListedRisky = 98"
    by code_simp
  from known_safe_cap [OF i a l n'] l n w
  show ?thesis by blast
qed

theorem known_safe_cap_counterexample:
  "ci_address (token ''0xdAC17F958D2ee523a2206206994597C13D831ec7'' ''Tether USD'' ''WARNING'')
     = Some ''0xdAC17F958D2ee523a2206206994597C13D831ec7''
   \<and> toLowerCase ''0xdAC17F958D2ee523a2206206994597C13D831ec7'' \<in> set KNOWN_SAFE_TOKENS
   \<and> calculateRiskScore exListedWarning = 95
   \<and> \<not> calculateRiskScore exListedWarning \<le> 15"
  by code_simp

text \<open>
  C3.  The risk score of \<open>calculateRiskScore\<close> (full path) and of
  \<open>calculateRPCOnlyRiskScore\<close> (fallback path) is an integer from 0 to 100, and the
  confidence lies between 0 and 1: for the functions on every input, and for the
  record that the scoring step of \<open>analyzeContract\<close> builds.
\<close>

theorem score_and_confidence_ranges:
  "0 \<le> calculateRiskScore a \<and> calculateRiskScore a \<le> 100
   \<and> 0 \<le> fr_score (calculateRPCOnlyRiskScore i g b)
   \<and> fr_score (calculateRPCOnlyRiskScore i g b) \<le> 100
   \<and> 0 \<le> calculateConfidence a \<and> calculateConfidence a \<le> 1
   \<and> 0 \<le> rec_risk_score (scoringStep c) \<and> rec_risk_score (scoringStep c) \<le> 100
   \<and> 0 \<le> rec_confidence (scoringStep c) \<and> rec_confidence (scoringStep c) \<le> 1"
proof -
  have s: "0 \<le> rec_risk_score (scoringStep c) \<and> rec_risk_score (scoringStep c) \<le> 100"
    using calculateRiskScore_range [of "fullAnalyses c"]
      calculateRPCOnlyRiskScore_range [of "co_contractInfo c" "co_goplusResult c" "co_bytecodeFindings c"]
    by (simp add: scoringStep_def scoringStepWith_def Let_def)
  have k: "0 \<le> rec_confidence (scoringStep c) \<and> rec_confidence (scoringStep c) \<le> 1"
    using calculateConfidence_range [of "confidenceArgument c"]
    by (simp add: scoringStep_def scoringStepWith_def Let_def)
  have r: "0 \<le> fr_score (calculateRPCOnlyRiskScore i g b)"
    using calculateRPCOnlyRiskScore_range [of i g b] by simp
  have q: "0 \<le> calculateConfidence a"
    using calculateConfidence_range [of a] by simp
  show ?thesis
    using s k r q calculateRiskScore_range [of a] calculateRPCOnlyRiskScore_range [of i g b]
      calculateConfidence_range [of a]
    by simp
qed

theorem score_and_confidence_ranges_witness:
  "calculateRiskScore exListedRisky = 15
   \<and> fr_score (calculateRPCOnlyRiskScore (co_contractInfo (exRun True None)) (Some honeypotGoPlus) []) = 100
   \<and> calculateConfidence exAllButGoPlus = 1
   \<and> rec_risk_score (scoringStep (exRun True (Some honeypotGoPlus))) = 100
   \<and> rec_confidence (scoringStep (exRun False None)) = 55 / 100
   \<and> 0 \<le> calculateRiskScore exListedRisky \<and> calculateRiskScore exListedRisky \<le> 100"
proof -
  have e: "calculateRiskScore exListedRisky = 15" by code_simp
  have f: "fr_score (calculateRPCOnlyRiskScore (co_contractInfo (exRun True None)) (Some honeypotGoPlus) []) = 100"
    by code_simp
  have g: "calculateConfidence exAllButGoPlus = 1" by code_simp
  have h: "rec_risk_score (scoringStep (exRun True (Some honeypotGoPlus))) = 100" by code_simp
  have j: "rec_confidence (scoringStep (exRun False None)) = 55 / 100" by code_simp
  from score_and_confidence_ranges [of exListedRisky "co_contractInfo (exRun True None)"
      "Some honeypotGoPlus" "[]" "exRun False None"] e f g h j
  show ?thesis by blast
qed

lemma fold_df_score: "fold (\<lambda>p acc. acc + df_score p) fs n = n + findingsTotal fs"
  unfolding findingsTotal_def by (induction fs arbitrary: n) simp_all

lemma addScore_scoreOf: "addScore acc r = acc + scoreOf r"
  unfolding addScore_def scoreOf_def by (simp split: option.split)

lemma scoreAdjustments_sums: "scoreAdjustments a = (internalSum a, externalSum a)"
  unfolding scoreAdjustments_def Let_def internalSum_def externalSum_def
    analyzerContributions_def oracleContributions_def codeContribution_def
    suspiciousTotal_def apiNotFoundTotal_def fold_df_score addScore_scoreOf
  by (simp add: scoreOf_def split: option.split)

lemma weightedScore_weighted: "weightedScore a = weighted (internalSum a) (externalSum a)"
  unfolding weightedScore_def weighted_def clampScore_def Let_def scoreAdjustments_sums
  by (simp add: algebra_simps)

text \<open>
  C4, as amended.  Where no scam keyword is found, \<open>calculateRiskScore\<close> forms the
  internal sum from the code, ownership, liquidity and behaviour contributions and
  the findings of \<open>detectSuspiciousPatterns\<close> (old contract with suspiciously low
  activity, old unverified contract), the external sum from the oracle contributions
  and the findings of \<open>detectAPINotFound\<close>, and the score before overrides and
  rounding is 50 + 0.4 internal + 0.6 external, clamped to the range 0 to 100.
\<close>

theorem weighted_sum_of_contributions:
  assumes "\<not> isScam (detectScamKeywords (ci_name_opt (an_contractInfo a)) (ci_symbol_opt (an_contractInfo a)))"
  shows "scoreAdjustments a = (internalSum a, externalSum a)
     \<and> weightedScore a = clampScore (50 + 4 / 10 * of_int (internalSum a) + 6 / 10 * of_int (externalSum a))
     \<and> calculateRiskScore a = Math_round (applyOverrides (an_contractInfo a) (weightedScore a))"
  using assms scoreAdjustments_sums [of a] weightedScore_weighted [of a] not_scam_score [of a]
  by (simp add: weighted_def)

theorem weighted_sum_of_contributions_witness:
  "\<not> isScam (detectScamKeywords (ci_name_opt (an_contractInfo exOldQuiet)) (ci_symbol_opt (an_contractInfo exOldQuiet)))
   \<and> suspiciousTotal exOldQuiet = 15
   \<and> internalSum exOldQuiet = 15 \<and> externalSum exOldQuiet = 0
   \<and> scoreAdjustments exOldQuiet = (15, 0)
   \<and> weightedScore exOldQuiet = 56
   \<and> calculateRiskScore exOldQuiet = 56"
proof -
  have n: "\<not> isScam (detectScamKeywords (ci_name_opt (an_contractInfo exOldQuiet)) (ci_symbol_opt (an_contractInfo exOldQuiet)))"
    by code_simp
  have s: "suspiciousTotal exOldQuiet = 15" by code_simp
  have i: "internalSum exOldQuiet = 15" by code_simp
  have e: "externalSum exOldQuiet = 0" by code_simp
  have c: "clampScore (50 + 4 / 10 * of_int 15 + 6 / 10 * of_int 0) = 56" by code_simp
  have o: "Math_round (applyOverrides (an_contractInfo exOldQuiet) 56) = 56" by code_simp
  from weighted_sum_of_contributions [OF n] n s i e c o
  show ?thesis by simp
qed

theorem weighted_sum_counterexample:
  "detectSuspiciousPatterns (an_contractInfo exOldQuiet)
     = [\<lparr>df_type = ''abandoned_or_suspicious'', df_score = 15\<rparr>]
   \<and> scoreAdjustments exOldQuiet = (15, 0)
   \<and> statedInternal exOldQuiet = 0 \<and> statedExternal exOldQuiet = 15
   \<and> weightedScore exOldQuiet = 56
   \<and> clampScore (50 + 4 / 10 * of_int (statedInternal exOldQuiet)
                     + 6 / 10 * of_int (statedExternal exOldQuiet)) = 59"
  by code_simp

lemma confidence_formula: "calculateConfidence a = min 1 (confidenceSum a)"
  unfolding calculateConfidence_def confidenceSum_def Let_def signal_def
    sourceAnalyzed_def ownershipKnown_def liquidityKnown_def olderThanWeek_def
    tokenSnifferChecked_def goplusChecked_def creatorHistoryAnalyzed_def
  by (simp split: option.split)

lemma confidenceSum_goplus:
  assumes "\<not> goplusChecked a" and "gp_checked g"
  shows "confidenceSum (a\<lparr>an_goplusResult := Some g\<rparr>) = confidenceSum a + 15 / 100"
  using assms
  unfolding confidenceSum_def signal_def
    sourceAnalyzed_def ownershipKnown_def liquidityKnown_def olderThanWeek_def
    tokenSnifferChecked_def goplusChecked_def creatorHistoryAnalyzed_def
  by simp

text \<open>
  C5, as amended.  \<open>calculateConfidence\<close> starts at 0.5, adds a fixed amount for each
  signal present in the analyses it is given (0.15 verified and analyzed source, 0.05
  ownership data, 0.05 liquidity data, 0.05 age above 7 days, 0.10 Token Sniffer
  checked, 0.15 GoPlus checked, 0.10 creator history analyzed) and caps the sum at 1.
  A successful GoPlus check never lowers the value, and raises it exactly when the
  sum without it is below 1.
\<close>

theorem confidence_of_signals:
  assumes "\<not> goplusChecked a" and "gp_checked g"
  shows "calculateConfidence a = min 1 (confidenceSum a)
     \<and> calculateConfidence (a\<lparr>an_goplusResult := Some g\<rparr>) = min 1 (confidenceSum a + 15 / 100)
     \<and> calculateConfidence a \<le> calculateConfidence (a\<lparr>an_goplusResult := Some g\<rparr>)
     \<and> (calculateConfidence a < calculateConfidence (a\<lparr>an_goplusResult := Some g\<rparr>)
          \<longleftrightarrow> confidenceSum a < 1)"
  using confidenceSum_goplus [OF assms]
  by (auto simp: confidence_formula min_def)

theorem confidence_of_signals_witness:
  "\<not> goplusChecked exYoungUnverified \<and> gp_checked checkedGoPlus
   \<and> calculateConfidence exYoungUnverified = 1 / 2
   \<and> calculateConfidence (exYoungUnverified\<lparr>an_goplusResult := Some checkedGoPlus\<rparr>) = 65 / 100
   \<and> calculateConfidence exYoungUnverified
       < calculateConfidence (exYoungUnverified\<lparr>an_goplusResult := Some checkedGoPlus\<rparr>)"
proof -
  have n: "\<not> goplusChecked exYoungUnverified" by code_simp
  have g: "gp_checked checkedGoPlus" by code_simp
  have s: "confidenceSum exYoungUnverified = 1 / 2" by code_simp
  from confidence_of_signals [OF n g] n g s
  show ?thesis by simp
qed

theorem confidence_counterexample:
  "\<not> goplusChecked exAllButGoPlus
   \<and> goplusChecked (exAllButGoPlus\<lparr>an_goplusResult := Some checkedGoPlus\<rparr>)
   \<and> calculateConfidence exAllButGoPlus = 1
   \<and> calculateConfidence (exAllButGoPlus\<lparr>an_goplusResult := Some checkedGoPlus\<rparr>) = 1
   \<and> \<not> calculateConfidence exAllButGoPlus
          < calculateConfidence (exAllButGoPlus\<lparr>an_goplusResult := Some checkedGoPlus\<rparr>)
   \<and> rec_confidence (scoringStep (exRun True None)) = 7 / 10
   \<and> rec_confidence (scoringStep (exRun True (Some checkedGoPlus))) = 7 / 10"
  by code_simp

text \<open>
  C9.  In fallback mode the confidence of the record is the constant 0.7, whatever the
  analyzers and oracles returned and whatever the confidence function is: it is not
  consulted.
\<close>

theorem fallback_confidence_constant:
  assumes "co_usingFallback c"
  shows "rec_confidence (scoringStep c) = 7 / 10
     \<and> rec_confidence (scoringStepWith conf c) = 7 / 10"
  using assms by (simp add: scoringStep_def scoringStepWith_def Let_def)

theorem fallback_confidence_constant_witness:
  "co_usingFallback (exRun True (Some honeypotGoPlus))
   \<and> rec_confidence (scoringStep (exRun True (Some honeypotGoPlus))) = 7 / 10
   \<and> rec_confidence (scoringStep (exRun True None)) = 7 / 10
   \<and> rec_confidence (scoringStepWith (\<lambda>a. 0) (exRun True None)) = 7 / 10"
proof -
  have a: "co_usingFallback (exRun True (Some honeypotGoPlus))" by (simp add: exRun_def)
  have b: "co_usingFallback (exRun True None)" by (simp add: exRun_def)
  from fallback_confidence_constant [OF a] fallback_confidence_constant [OF b, of "\<lambda>a. 0"] a
  show ?thesis by blast
qed

lemma run_confidence_ignores_oracles:
  "\<not> co_usingFallback c \<Longrightarrow>
     rec_confidence (scoringStep c)
       = (if oa_hasOwner (co_ownershipAnalysis c) \<noteq> None then 55 / 100 else 1 / 2)"
  by (simp add: scoringStep_def scoringStepWith_def Let_def confidenceArgument_def
      calculateConfidence_def ci_verified_opt_def)

section \<open>Properties of the cache\<close>

text \<open>
  C8.  A cache read returns a miss (\<open>null\<close>) when there is no entry for the key,
  when the entry is older than the TTL of 3600 seconds (\<open>now - created_at\<close> above
  3600000 milliseconds), and when the stored payload does not parse; an entry older
  than the TTL is removed by that read.
\<close>

theorem cache_read_miss:
  "(db (cacheKey contractAddress chain scanDepth) = None
      \<longrightarrow> CacheDB_get parse db now contractAddress chain scanDepth = (None, db))
   \<and> (db (cacheKey contractAddress chain scanDepth) = Some row
        \<and> now - row_created_at row > 3600 * 1000
      \<longrightarrow> CacheDB_get parse db now contractAddress chain scanDepth
            = (None, db(cacheKey contractAddress chain scanDepth := None)))
   \<and> (db (cacheKey contractAddress chain scanDepth) = Some row
        \<and> parse (row_result row) = None
      \<longrightarrow> fst (CacheDB_get parse db now contractAddress chain scanDepth) = None)"
  unfolding CacheDB_get_def CacheDB_delete_def Let_def
  by (auto split: option.splits)

theorem cache_read_miss_witness:
  "CacheDB_get parseNumber exCache 6000 ''0xabc0000000000000000000000000000000000003''
       ''ethereum'' ''quick'' = (None, exCache)
   \<and> exCache (cacheKey ''0xABC0000000000000000000000000000000000001'' ''ethereum'' ''quick'')
       = Some \<lparr>row_result = ''42'', row_created_at = 1000\<rparr>
   \<and> CacheDB_get parseNumber exCache 3601001 ''0xABC0000000000000000000000000000000000001''
       ''ethereum'' ''quick''
       = (None, exCache(cacheKey ''0xABC0000000000000000000000000000000000001'' ''ethereum''
                          ''quick'' := None))
   \<and> fst (CacheDB_get parseNumber exCache 3601000 ''0xABC0000000000000000000000000000000000001''
       ''ethereum'' ''quick'') = Some 42
   \<and> exCache (cacheKey ''0xABC0000000000000000000000000000000000002'' ''ethereum'' ''deep'')
       = Some \<lparr>row_result = ''{oops'', row_created_at = 5000\<rparr>
   \<and> parseNumber ''{oops'' = None
   \<and> fst (CacheDB_get parseNumber exCache 6000 ''0xABC0000000000000000000000000000000000002''
       ''ethereum'' ''deep'') = None"
proof -
  have a: "exCache (cacheKey ''0xabc0000000000000000000000000000000000003'' ''ethereum'' ''quick'') = None"
    by code_simp
  have b: "exCache (cacheKey ''0xABC0000000000000000000000000000000000001'' ''ethereum'' ''quick'')
       = Some \<lparr>row_result = ''42'', row_created_at = 1000\<rparr>"
    by code_simp
  have c: "exCache (cacheKey ''0xABC0000000000000000000000000000000000002'' ''ethereum'' ''deep'')
       = Some \<lparr>row_result = ''{oops'', row_created_at = 5000\<rparr>"
    by code_simp
  have d: "parseNumber ''{oops'' = None"
    by code_simp
  have e: "fst (CacheDB_get parseNumber exCache 3601000 ''0xABC0000000000000000000000000000000000001''
       ''ethereum'' ''quick'') = Some 42"
    by code_simp
  from cache_read_miss [of exCache "''0xabc0000000000000000000000000000000000003''" "''ethereum''"
      "''quick''" parseNumber 6000]
    cache_read_miss [of exCache "''0xABC0000000000000000000000000000000000001''" "''ethereum''"
      "''quick''" parseNumber 3601001 "\<lparr>row_result = ''42'', row_created_at = 1000\<rparr>"]
    cache_read_miss [of exCache "''0xABC0000000000000000000000000000000000002''" "''ethereum''"
      "''deep''" parseNumber 6000 "\<lparr>row_result = ''{oops'', row_created_at = 5000\<rparr>"]
    a b c d e
  show ?thesis by simp
qed

section \<open>Properties of the liquidity analyzer\<close>

text \<open>
  Every holder that \<open>analyzeLiquidityPair\<close> lists has a lower-case address, since the
  keys of the balances are lower-cased; so no holder is ever found at the two entries
  of \<open>KNOWN_LOCKERS\<close> that are written in mixed case.  The score of
  \<open>analyzeLiquidity\<close> is 5 without pairs, -10 when something is locked or burned, 15
  when a holder that is the deployer has more than 50 percent, and 10 otherwise.
\<close>

lemma toLowerChar_idem: "toLowerChar (toLowerChar c) = toLowerChar c"
proof (cases "65 \<le> (of_char c :: nat) \<and> (of_char c :: nat) \<le> 90")
  case True
  then have "(of_char (char_of ((of_char c :: nat) + 32)) :: nat) = of_char c + 32"
    by simp
  then show ?thesis using True by (simp add: toLowerChar_def)
next
  case False
  then show ?thesis unfolding toLowerChar_def by auto
qed

lemma toLowerCase_idem: "toLowerCase (toLowerCase s) = toLowerCase s"
  by (simp add: toLowerCase_def toLowerChar_idem)

lemma mapSet_all:
  "list_all (\<lambda>kv. P (fst kv)) kvs \<Longrightarrow> P k \<Longrightarrow> list_all (\<lambda>kv. P (fst kv)) (mapSet kvs k v)"
  by (induction kvs k v rule: mapSet.induct) simp_all

lemma applyTransfer_lower:
  assumes "list_all (\<lambda>kv. toLowerCase (fst kv) = fst kv) balances"
  shows "list_all (\<lambda>kv. toLowerCase (fst kv) = fst kv) (applyTransfer t balances)"
proof -
  let ?P = "\<lambda>k. toLowerCase k = k"
  let ?from = "toLowerCase (tr_from t)"
  let ?to = "toLowerCase (tr_to t)"
  let ?b = "if ?from \<noteq> zeroAddress
            then mapSet balances ?from (mapGetOr0 balances ?from - tr_value t) else balances"
  have f: "?P ?from" and t: "?P ?to" by (rule toLowerCase_idem)+
  have b: "list_all (\<lambda>kv. ?P (fst kv)) ?b"
    using assms mapSet_all [of ?P balances ?from, OF assms f] by simp
  have "applyTransfer t balances = mapSet ?b ?to (mapGetOr0 ?b ?to + tr_value t)"
    by (simp add: applyTransfer_def Let_def)
  then show ?thesis
    using mapSet_all [of ?P ?b ?to, OF b t] by simp
qed

lemma fold_applyTransfer_lower:
  "list_all (\<lambda>kv. toLowerCase (fst kv) = fst kv) balances \<Longrightarrow>
   list_all (\<lambda>kv. toLowerCase (fst kv) = fst kv) (fold applyTransfer transfers balances)"
  by (induction transfers arbitrary: balances) (simp_all add: applyTransfer_lower)

lemma scanHolders_all:
  "list_all (\<lambda>kv. P (fst kv)) kvs \<Longrightarrow> list_all (\<lambda>h. P (h_address h)) (pa_holders analysis) \<Longrightarrow>
   list_all (\<lambda>h. P (h_address h)) (pa_holders (fst (scanHolders n kvs analysis)))"
proof (induction n kvs analysis rule: scanHolders.induct)
  case (1 totalSupply analysis)
  then show ?case by simp
next
  case (2 totalSupply address balance rest analysis)
  have rest: "list_all (\<lambda>kv. P (fst kv)) rest" and addr: "P address"
    using 2(4) by simp_all
  show ?case
  proof (cases "balance \<le> 0")
    case True
    then show ?thesis using 2(1) [OF True rest 2(5)] by simp
  next
    case pos: False
    show ?thesis
    proof (cases "totalSupply = 0")
      case True
      then show ?thesis using pos 2(5) by simp
    next
      case nz: False
      let ?p = "(of_int ((balance * 10000) div int totalSupply) :: rat) / 100"
      show ?thesis
      proof (cases "?p < 1")
        case True
        then show ?thesis using pos nz 2(2) [OF pos nz refl True rest 2(5)] by simp
      next
        case big: False
        let ?a1 = "if address = burnAddress \<or> address = zeroAddress
                   then analysis\<lparr>pa_burned := True, pa_locked := True\<rparr> else analysis"
        let ?a2 = "if address \<in> set KNOWN_LOCKERS then ?a1\<lparr>pa_locked := True\<rparr> else ?a1"
        let ?a3 = "?a2\<lparr>pa_holders := pa_holders ?a2 @
                           [\<lparr>h_address = address, h_balance = balance,
                             h_percentage = ?p,
                             h_isLocker = (address \<in> set KNOWN_LOCKERS),
                             h_isBurned = (address = burnAddress \<or> address = zeroAddress)\<rparr>]\<rparr>"
        have h: "list_all (\<lambda>h. P (h_address h)) (pa_holders ?a3)"
          using 2(5) addr by simp
        have "scanHolders totalSupply ((address, balance) # rest) analysis
                = scanHolders totalSupply rest ?a3"
          using pos nz big by (simp add: Let_def)
        then show ?thesis
          using 2(3) [OF pos nz refl big refl refl refl rest h] by simp
      qed
    qed
  qed
qed

lemma holder_addresses_lower_case:
  "list_all (\<lambda>h. toLowerCase (h_address h) = h_address h)
     (pa_holders (analyzeLiquidityPair lpTransfers totalSupply))"
proof -
  let ?P = "\<lambda>k. toLowerCase k = k"
  have e: "pa_holders emptyPairAnalysis = []" by (simp add: emptyPairAnalysis_def)
  show ?thesis
  proof (cases lpTransfers)
    case None
    then show ?thesis using e by (simp add: analyzeLiquidityPair_def)
  next
    case tr: (Some transfers)
    show ?thesis
    proof (cases totalSupply)
      case None
      then show ?thesis using e tr by (simp add: analyzeLiquidityPair_def)
    next
      case (Some n)
      let ?b = "fold applyTransfer transfers []"
      let ?r = "scanHolders n ?b emptyPairAnalysis"
      have b: "list_all (\<lambda>kv. ?P (fst kv)) ?b"
        using fold_applyTransfer_lower [of "[]" transfers] by simp
      have r: "list_all (\<lambda>h. ?P (h_address h)) (pa_holders (fst ?r))"
        using scanHolders_all [of ?P ?b emptyPairAnalysis n, OF b] e by simp
      have "set (pa_holders (analyzeLiquidityPair lpTransfers totalSupply))
              = set (pa_holders (fst ?r))"
        using tr Some by (simp add: analyzeLiquidityPair_def Let_def split_beta)
      then show ?thesis using r by (simp add: list_all_iff)
    qed
  qed
qed

lemma mixed_case_lockers_never_match:
  assumes "h \<in> set (pa_holders (analyzeLiquidityPair lpTransfers totalSupply))"
  shows "h_address h \<noteq> ''0x71B5759d73262FBb223956913ecF4ecC51057641''
     \<and> h_address h \<noteq> ''0x407993575c91ce7643a4d4cCACc9A98c36eE1BBE''"
proof -
  have a: "toLowerCase ''0x71B5759d73262FBb223956913ecF4ecC51057641''
             \<noteq> ''0x71B5759d73262FBb223956913ecF4ecC51057641''"
    by code_simp
  have b: "toLowerCase ''0x407993575c91ce7643a4d4cCACc9A98c36eE1BBE''
             \<noteq> ''0x407993575c91ce7643a4d4cCACc9A98c36eE1BBE''"
    by code_simp
  have "toLowerCase (h_address h) = h_address h"
    using holder_addresses_lower_case [of lpTransfers totalSupply] assms
    by (simp add: list_all_iff)
  then show ?thesis using a b by metis
qed

lemma addPair_score: "la_score (addPair pair analysis) = la_score analysis"
  by (simp add: addPair_def Let_def)

lemma fold_addPair_score: "la_score (fold addPair pairs analysis) = la_score analysis"
  by (induction pairs arbitrary: analysis) (simp_all add: addPair_score)

lemma liquidity_scores:
  "la_score (analyzeLiquidity creator pairs)
     = (if pairs = [] then 5
        else if la_lpLocked (analyzeLiquidity creator pairs)
                \<or> la_lpBurned (analyzeLiquidity creator pairs) then - 10
        else if list_ex (\<lambda>holder.
                  Some (toLowerCase (h_address holder)) = map_option toLowerCase creator
                  \<and> h_percentage holder > 50)
                (la_lpHolders (analyzeLiquidity creator pairs)) then 15
        else 10)"
  by (simp add: analyzeLiquidity_def Let_def fold_addPair_score emptyLiquidityAnalysis_def)


text \<open>
  C6.  The specification asks that a holder at the burn address, the zero address or a
  known locker counts as locked.  The analyzer lower-cases the holder's address and then
  looks it up in \<open>KNOWN_LOCKERS\<close>, two of whose entries are written in mixed case:
  all LP tokens held by the PinkLock contract are reported as not locked (+10), while
  the same holding at the Unicrypt locker, whose entry is in lower case, is reported
  as locked (-10).
\<close>

theorem pinklock_holder_not_locked:
  "pinkLockETH \<in> set KNOWN_LOCKERS
   \<and> pa_locked (analyzeLiquidityPair (pd_lpTransfers (mintedTo pinkLockETH))
                  (pd_totalSupply (mintedTo pinkLockETH))) = False
   \<and> map h_isLocker (pa_holders (analyzeLiquidityPair (pd_lpTransfers (mintedTo pinkLockETH))
                  (pd_totalSupply (mintedTo pinkLockETH)))) = [False]
   \<and> la_lpLocked (analyzeLiquidity (Some deployer) [mintedTo pinkLockETH]) = False
   \<and> la_score (analyzeLiquidity (Some deployer) [mintedTo pinkLockETH]) = 10
   \<and> la_lpLocked (analyzeLiquidity (Some deployer) [mintedTo unicrypt]) = True
   \<and> la_score (analyzeLiquidity (Some deployer) [mintedTo unicrypt]) = - 10"
  by code_simp

section \<open>Properties of the code analyzer\<close>

lemma scanPatterns_fold_found:
  "fst (fold (\<lambda>regex (found, evidence).
             (let matches = match regex sourceCode
              in if matches \<noteq> [] then (True, evidence @ take limit matches)
                 else (found, evidence))) ps (b, e))
   = (b \<or> list_ex (\<lambda>regex. match regex sourceCode \<noteq> []) ps)"
  by (induction ps arbitrary: b e) (auto simp: Let_def)

lemma scanPatterns_found:
  "fst (scanPatterns match limit ps sourceCode)
     = list_ex (\<lambda>regex. match regex sourceCode \<noteq> []) ps"
  unfolding scanPatterns_def using scanPatterns_fold_found [of match sourceCode limit ps False "[]"]
  by simp

text \<open>What one rule adds to the vulnerabilities and to the score.\<close>

lemma redFlagStep_shift:
  "redFlagStep match src isProxy pattern (vs, sc)
     = (vs @ fst (redFlagStep match src isProxy pattern ([], 0)),
        sc + snd (redFlagStep match src isProxy pattern ([], 0)))"
  unfolding redFlagStep_def Let_def
  by (auto split: prod.split)

lemma redFlagStep_types:
  "set (map v_type (fst (redFlagStep match src isProxy pattern ([], 0)))) \<subseteq> {rf_key pattern}"
  unfolding redFlagStep_def Let_def
  by (auto split: prod.split)

lemma fold_redFlagStep_shift:
  "fold (redFlagStep match src isProxy) ps (vs, sc)
     = (vs @ fst (fold (redFlagStep match src isProxy) ps ([], 0)),
        sc + snd (fold (redFlagStep match src isProxy) ps ([], 0)))"
proof (induction ps arbitrary: vs sc)
  case Nil
  show ?case by simp
next
  case (Cons p ps)
  let ?d = "redFlagStep match src isProxy p ([], 0)"
  have "fold (redFlagStep match src isProxy) (p # ps) (vs, sc)
        = fold (redFlagStep match src isProxy) ps (vs @ fst ?d, sc + snd ?d)"
    using redFlagStep_shift [of match src isProxy p vs sc] by simp
  also have "\<dots> = ((vs @ fst ?d) @ fst (fold (redFlagStep match src isProxy) ps ([], 0)),
                    (sc + snd ?d) + snd (fold (redFlagStep match src isProxy) ps ([], 0)))"
    by (rule Cons.IH)
  finally have l: "fold (redFlagStep match src isProxy) (p # ps) (vs, sc)
        = ((vs @ fst ?d) @ fst (fold (redFlagStep match src isProxy) ps ([], 0)),
                    (sc + snd ?d) + snd (fold (redFlagStep match src isProxy) ps ([], 0)))" .
  have "fold (redFlagStep match src isProxy) (p # ps) ([], 0)
        = fold (redFlagStep match src isProxy) ps (fst ?d, snd ?d)"
    by simp
  also have "\<dots> = (fst ?d @ fst (fold (redFlagStep match src isProxy) ps ([], 0)),
                    snd ?d + snd (fold (redFlagStep match src isProxy) ps ([], 0)))"
    by (rule Cons.IH)
  finally have r: "fold (redFlagStep match src isProxy) (p # ps) ([], 0)
        = (fst ?d @ fst (fold (redFlagStep match src isProxy) ps ([], 0)),
                    snd ?d + snd (fold (redFlagStep match src isProxy) ps ([], 0)))" .
  show ?case unfolding l r by simp
qed

lemma fold_redFlagStep_types:
  "set (map v_type (fst (fold (redFlagStep match src isProxy) ps ([], 0))))
     \<subseteq> set (map rf_key ps)"
proof (induction ps)
  case Nil
  show ?case by simp
next
  case (Cons p ps)
  have "fold (redFlagStep match src isProxy) (p # ps) ([], 0)
        = fold (redFlagStep match src isProxy) ps
            (fst (redFlagStep match src isProxy p ([], 0)), snd (redFlagStep match src isProxy p ([], 0)))"
    by simp
  then have "fst (fold (redFlagStep match src isProxy) (p # ps) ([], 0))
        = fst (redFlagStep match src isProxy p ([], 0))
          @ fst (fold (redFlagStep match src isProxy) ps ([], 0))"
    using fold_redFlagStep_shift [of match src isProxy ps] by (metis fst_conv)
  then show ?case
    using Cons.IH redFlagStep_types [of match src isProxy p] by auto
qed

lemma safeStep_score:
  "snd (safeStep match src pattern (sp, sc)) = sc + snd (safeStep match src pattern ([], 0))"
  "fst (safeStep match src pattern (sp, sc)) = sp @ fst (safeStep match src pattern ([], 0))"
  unfolding safeStep_def Let_def by (simp_all split: prod.split)

lemma fold_safeStep_shift:
  "fold (safeStep match src) ps (sp, sc)
     = (sp @ fst (fold (safeStep match src) ps ([], 0)),
        sc + snd (fold (safeStep match src) ps ([], 0)))"
proof (induction ps arbitrary: sp sc)
  case Nil
  show ?case by simp
next
  case (Cons p ps)
  let ?d = "safeStep match src p ([], 0)"
  have s: "safeStep match src p (sp, sc) = (sp @ fst ?d, sc + snd ?d)"
    using safeStep_score [of match src p sp sc] by (metis prod.collapse)
  have l: "fold (safeStep match src) (p # ps) (sp, sc)
        = ((sp @ fst ?d) @ fst (fold (safeStep match src) ps ([], 0)),
           (sc + snd ?d) + snd (fold (safeStep match src) ps ([], 0)))"
    using s Cons.IH [of "sp @ fst ?d" "sc + snd ?d"] by simp
  have r: "fold (safeStep match src) (p # ps) ([], 0)
        = (fst ?d @ fst (fold (safeStep match src) ps ([], 0)),
           snd ?d + snd (fold (safeStep match src) ps ([], 0)))"
    using Cons.IH [of "fst ?d" "snd ?d"] by simp
  show ?case unfolding l r by simp
qed

lemma RED_FLAG_PATTERNS_split: "RED_FLAG_PATTERNS = hiddenMintRule # tl RED_FLAG_PATTERNS"
  unfolding RED_FLAG_PATTERNS_def hiddenMintRule_def by simp

lemma hiddenMint_not_in_tail: "''hiddenMint'' \<notin> set (map rf_key (tl RED_FLAG_PATTERNS))"
  unfolding RED_FLAG_PATTERNS_def by simp

lemma hasRestrictedModifier_mint:
  "hasRestrictedModifier hiddenMintModifiers src = containsRestrictionModifier src"
  unfolding hasRestrictedModifier_def containsRestrictionModifier_def hiddenMintModifiers_def
  by simp

lemma hiddenMint_step:
  "redFlagStep match src isProxy hiddenMintRule ([], 0)
     = (if mintPatternMatches match src \<and> containsRestrictionModifier src
        then ([\<lparr>v_type = ''hiddenMint'', v_severity = ''critical'',
                v_description = ''Contract owner can mint unlimited tokens'',
                v_evidence = joinWith '', '' (snd (scanPatterns match 3 hiddenMintPatterns src)),
                v_score = 15\<rparr>], 15)
        else ([], 0))"
proof -
  obtain f e where fe: "scanPatterns match 3 hiddenMintPatterns src = (f, e)"
    by (cases "scanPatterns match 3 hiddenMintPatterns src")
  have f: "f = mintPatternMatches match src"
    using scanPatterns_found [of match 3 hiddenMintPatterns src] fe
    by (simp add: mintPatternMatches_def)
  show ?thesis
    unfolding redFlagStep_def Let_def
    using fe f hasRestrictedModifier_mint [of src]
    by (simp add: hiddenMintRule_def)
qed

lemma analyzeSourceCodeOn_nonempty:
  assumes "orEmpty sourceCode \<noteq> []"
  shows "analyzeSourceCodeOn redFlags safeRules match sourceCode isProxy
     = \<lparr>ca_analyzed = True,
        ca_vulnerabilities =
          fst (fold (redFlagStep match (orEmpty sourceCode) isProxy) redFlags ([], 0)),
        ca_safePatterns = fst (fold (safeStep match (orEmpty sourceCode)) safeRules ([], 0)),
        ca_score =
          snd (fold (redFlagStep match (orEmpty sourceCode) isProxy) redFlags ([], 0))
          + snd (fold (safeStep match (orEmpty sourceCode)) safeRules ([], 0))\<rparr>"
proof -
  let ?r = "fold (redFlagStep match (orEmpty sourceCode) isProxy) redFlags ([], 0)"
  let ?s = "fold (safeStep match (orEmpty sourceCode)) safeRules ([], 0)"
  have "fold (safeStep match (orEmpty sourceCode)) safeRules ([], snd ?r)
        = (fst ?s, snd ?r + snd ?s)"
    using fold_safeStep_shift [of match "orEmpty sourceCode" safeRules "[]" "snd ?r"] by simp
  then show ?thesis
    using assms by (simp add: analyzeSourceCodeOn_def Let_def split_beta)
qed

lemma analyzeSourceCode_split:
  assumes "orEmpty sourceCode \<noteq> []"
  shows "analyzeSourceCode match sourceCode isProxy
     = (let d = redFlagStep match (orEmpty sourceCode) isProxy hiddenMintRule ([], 0);
            rest = analyzeSourceCodeOn (tl RED_FLAG_PATTERNS) SAFE_PATTERNS match sourceCode isProxy
        in rest\<lparr>ca_vulnerabilities := fst d @ ca_vulnerabilities rest,
                ca_score := snd d + ca_score rest\<rparr>)"
proof -
  let ?src = "orEmpty sourceCode"
  let ?d = "redFlagStep match ?src isProxy hiddenMintRule ([], 0)"
  let ?t = "fold (redFlagStep match ?src isProxy) (tl RED_FLAG_PATTERNS) ([], 0)"
  have "fold (redFlagStep match ?src isProxy) RED_FLAG_PATTERNS ([], 0)
        = fold (redFlagStep match ?src isProxy) (tl RED_FLAG_PATTERNS) (fst ?d, snd ?d)"
    by (subst RED_FLAG_PATTERNS_split) simp
  then have full: "fold (redFlagStep match ?src isProxy) RED_FLAG_PATTERNS ([], 0)
        = (fst ?d @ fst ?t, snd ?d + snd ?t)"
    using fold_redFlagStep_shift [of match ?src isProxy "tl RED_FLAG_PATTERNS" "fst ?d" "snd ?d"]
    by simp
  show ?thesis
    unfolding analyzeSourceCode_def analyzeSourceCodeOn_nonempty [OF assms] full Let_def
    by simp
qed

lemma ca_vulnerabilities_tail:
  assumes "orEmpty sourceCode \<noteq> []"
  shows "ca_vulnerabilities
          (analyzeSourceCodeOn (tl RED_FLAG_PATTERNS) SAFE_PATTERNS match sourceCode isProxy)
        = fst (fold (redFlagStep match (orEmpty sourceCode) isProxy) (tl RED_FLAG_PATTERNS) ([], 0))"
  unfolding analyzeSourceCodeOn_nonempty [OF assms] by simp

lemma tail_never_reports_mint:
  "\<not> reported ''hiddenMint''
       (analyzeSourceCodeOn (tl RED_FLAG_PATTERNS) SAFE_PATTERNS match sourceCode isProxy)"
proof (cases "orEmpty sourceCode = []")
  case True
  then show ?thesis by (simp add: reported_def analyzeSourceCodeOn_def)
next
  case False
  let ?t = "fold (redFlagStep match (orEmpty sourceCode) isProxy) (tl RED_FLAG_PATTERNS) ([], 0)"
  have "ca_vulnerabilities
          (analyzeSourceCodeOn (tl RED_FLAG_PATTERNS) SAFE_PATTERNS match sourceCode isProxy)
        = fst ?t"
    using False by (rule ca_vulnerabilities_tail)
  then show ?thesis
    using fold_redFlagStep_types [of match "orEmpty sourceCode" isProxy "tl RED_FLAG_PATTERNS"]
      hiddenMint_not_in_tail
    unfolding reported_def by auto
qed

text \<open>
  C7.  \<open>analyzeSourceCode\<close> reports the mint rule (\<open>hiddenMint\<close>) exactly when one
  of its patterns matches and the source contains, without regard to case, one of
  the modifiers onlyOwner, onlyAdmin, onlyMinter.  The rule adds 15 to the score when
  it is reported and nothing otherwise: without such a modifier the analysis is the
  one of the table without the mint rule.  This holds for every regular-expression
  engine \<open>match\<close>.
\<close>

theorem hidden_mint_needs_modifier:
  "(reported ''hiddenMint'' (analyzeSourceCode match sourceCode isProxy)
      \<longleftrightarrow> orEmpty sourceCode \<noteq> []
          \<and> mintPatternMatches match (orEmpty sourceCode)
          \<and> containsRestrictionModifier (orEmpty sourceCode))
   \<and> ca_score (analyzeSourceCode match sourceCode isProxy)
       = (if reported ''hiddenMint'' (analyzeSourceCode match sourceCode isProxy) then 15 else 0)
         + ca_score (analyzeSourceCodeOn (tl RED_FLAG_PATTERNS) SAFE_PATTERNS match sourceCode isProxy)
   \<and> (\<not> containsRestrictionModifier (orEmpty sourceCode)
        \<longrightarrow> analyzeSourceCode match sourceCode isProxy
            = analyzeSourceCodeOn (tl RED_FLAG_PATTERNS) SAFE_PATTERNS match sourceCode isProxy)"
proof (cases "orEmpty sourceCode = []")
  case True
  then show ?thesis
    by (simp add: reported_def analyzeSourceCode_def analyzeSourceCodeOn_def)
next
  case False
  let ?rest = "analyzeSourceCodeOn (tl RED_FLAG_PATTERNS) SAFE_PATTERNS match sourceCode isProxy"
  let ?g = "mintPatternMatches match (orEmpty sourceCode)
            \<and> containsRestrictionModifier (orEmpty sourceCode)"
  have n: "''hiddenMint'' \<notin> set (map v_type (ca_vulnerabilities ?rest))"
    using tail_never_reports_mint [of match sourceCode isProxy] by (simp add: reported_def)
  show ?thesis
  proof (cases ?g)
    case True
    then have "analyzeSourceCode match sourceCode isProxy
        = ?rest\<lparr>ca_vulnerabilities :=
             [\<lparr>v_type = ''hiddenMint'', v_severity = ''critical'',
               v_description = ''Contract owner can mint unlimited tokens'',
               v_evidence = joinWith '', ''
                 (snd (scanPatterns match 3 hiddenMintPatterns (orEmpty sourceCode))),
               v_score = 15\<rparr>] @ ca_vulnerabilities ?rest,
             ca_score := 15 + ca_score ?rest\<rparr>"
      using analyzeSourceCode_split [OF False, of match isProxy]
        hiddenMint_step [of match "orEmpty sourceCode" isProxy]
      by (simp add: Let_def)
    then show ?thesis using True False by (simp add: reported_def)
  next
    case g: False
    then have "analyzeSourceCode match sourceCode isProxy = ?rest"
      using analyzeSourceCode_split [OF False, of match isProxy]
        hiddenMint_step [of match "orEmpty sourceCode" isProxy]
      by (simp add: Let_def)
    then show ?thesis using g n by (auto simp: reported_def)
  qed
qed

theorem hidden_mint_needs_modifier_witness:
  "mintPatternMatches regexMatch exOpenMint
   \<and> \<not> containsRestrictionModifier exOpenMint
   \<and> \<not> reported ''hiddenMint'' (analyzeSourceCode regexMatch (Some exOpenMint) False)
   \<and> analyzeSourceCode regexMatch (Some exOpenMint) False
       = analyzeSourceCodeOn (tl RED_FLAG_PATTERNS) SAFE_PATTERNS regexMatch (Some exOpenMint) False
   \<and> mintPatternMatches regexMatch exRestrictedMint
   \<and> containsRestrictionModifier exRestrictedMint
   \<and> reported ''hiddenMint'' (analyzeSourceCode regexMatch (Some exRestrictedMint) False)
   \<and> ca_score (analyzeSourceCode regexMatch (Some exRestrictedMint) False)
       = 15 + ca_score (analyzeSourceCodeOn (tl RED_FLAG_PATTERNS) SAFE_PATTERNS regexMatch
                          (Some exRestrictedMint) False)"
proof -
  have a: "mintPatternMatches regexMatch exOpenMint" by code_simp
  have b: "\<not> containsRestrictionModifier exOpenMint" by code_simp
  have c: "mintPatternMatches regexMatch exRestrictedMint" by code_simp
  have d: "containsRestrictionModifier exRestrictedMint" by code_simp
  have e: "orEmpty (Some exOpenMint) \<noteq> []" by code_simp
  have f: "orEmpty (Some exRestrictedMint) \<noteq> []" by code_simp
  have a': "mintPatternMatches regexMatch (orEmpty (Some exOpenMint))" using a by simp
  have b': "\<not> containsRestrictionModifier (orEmpty (Some exOpenMint))" using b by simp
  have c': "mintPatternMatches regexMatch (orEmpty (Some exRestrictedMint))" using c by simp
  have d': "containsRestrictionModifier (orEmpty (Some exRestrictedMint))" using d by simp
  from hidden_mint_needs_modifier [of regexMatch "Some exOpenMint" False] a' b' e
  have o: "\<not> reported ''hiddenMint'' (analyzeSourceCode regexMatch (Some exOpenMint) False)
     \<and> analyzeSourceCode regexMatch (Some exOpenMint) False
       = analyzeSourceCodeOn (tl RED_FLAG_PATTERNS) SAFE_PATTERNS regexMatch (Some exOpenMint) False"
    by blast
  from hidden_mint_needs_modifier [of regexMatch "Some exRestrictedMint" False] c' d' f
  have r: "reported ''hiddenMint'' (analyzeSourceCode regexMatch (Some exRestrictedMint) False)"
    by blast
  from hidden_mint_needs_modifier [of regexMatch "Some exRestrictedMint" False] r
  have r': "ca_score (analyzeSourceCode regexMatch (Some exRestrictedMint) False)
       = 15 + ca_score (analyzeSourceCodeOn (tl RED_FLAG_PATTERNS) SAFE_PATTERNS regexMatch
                          (Some exRestrictedMint) False)"
    by (simp only: if_True)
  from a b c d o r r' show ?thesis by blast
qed

end
